theory Spec2Isabelle
  imports Main
begin

section \<open>Python values shared by the four modules\<close>

text \<open>
  A Python \<open>str\<close> is modelled as a \<open>string\<close> whose characters are code points
  below 256; \<open>bytes\<close> is a \<open>string\<close> whose characters are bytes. Text with code
  points above 255, floats and the UTF-16/32 inputs that \<open>json.loads\<close> also accepts
  are outside the model: a library function that meets one returns \<open>Unmodelled\<close>,
  which no \<open>except\<close> clause of the model catches, so that no theorem says anything
  about such a run.
\<close>

type_synonym bytes = string

datatype error =
    ValueError string
  | JSONDecodeError
  | BinasciiError
  | UnicodeDecodeError
  | UnicodeEncodeError
  | ValidationError
  | KeyError string
  | TypeError
  | IndexError
  | AttributeError
  | InjectionError
  | KafkaError string
  | OutOfFuel
  | Unmodelled

text \<open>
  Python's class hierarchy, as far as the relay's error classes need it:
  \<open>json.JSONDecodeError\<close>, \<open>binascii.Error\<close>, the two Unicode errors and pydantic's
  \<open>ValidationError\<close> are subclasses of \<open>ValueError\<close>; \<open>KeyError\<close> and
  \<open>IndexError\<close> are \<open>LookupError\<close>s and \<open>TypeError\<close> stands alone.
\<close>

fun is_ValueError :: "error \<Rightarrow> bool" where
  "is_ValueError (ValueError m) = True"
| "is_ValueError JSONDecodeError = True"
| "is_ValueError BinasciiError = True"
| "is_ValueError UnicodeDecodeError = True"
| "is_ValueError UnicodeEncodeError = True"
| "is_ValueError ValidationError = True"
| "is_ValueError e = False"

text \<open>
  The values \<open>json.loads\<close> returns and \<open>json.dumps\<close> accepts. A \<open>dict\<close> keeps its
  insertion order, so it is an association list.
\<close>

datatype json =
    JNull
  | JBool bool
  | JInt int
  | JStr string
  | JList "json list"
  | JObj "(string \<times> json) list"

text \<open>\<open>d.get(k)\<close>: the first binding of the key.\<close>

fun dict_get :: "(string \<times> json) list \<Rightarrow> string \<Rightarrow> json option" where
  "dict_get [] k = None"
| "dict_get ((k', v) # kvs) k = (if k' = k then Some v else dict_get kvs k)"

text \<open>
  \<open>d[k] = v\<close>: an existing key keeps its position and takes the new value, a new
  key goes last.
\<close>

fun dict_set :: "string \<Rightarrow> json \<Rightarrow> (string \<times> json) list \<Rightarrow> (string \<times> json) list" where
  "dict_set k v [] = [(k, v)]"
| "dict_set k v ((k', v') # kvs) =
     (if k' = k then (k, v) # kvs else (k', v') # dict_set k v kvs)"

text \<open>A Python value that may be \<open>None\<close>, as a JSON value.\<close>

definition opt_json :: "json option \<Rightarrow> json" where
  "opt_json x = (case x of None \<Rightarrow> JNull | Some v \<Rightarrow> v)"

subsection \<open>\<open>str.replace\<close>, \<open>str.join\<close> and the codecs\<close>

text \<open>
  \<open>s.replace(old, new)\<close>: the occurrences of \<open>old\<close> are found from the left and do
  not overlap. With an empty \<open>old\<close>, Python puts \<open>new\<close> before every character and
  at the end.
\<close>

function str_replace :: "string \<Rightarrow> string \<Rightarrow> string \<Rightarrow> string" where
  "str_replace [] new s = new @ concat (map (\<lambda>c. c # new) s)"
| "str_replace (a # old) new [] = []"
| "str_replace (a # old) new (c # cs) =
     (if take (length (a # old)) (c # cs) = a # old
      then new @ str_replace (a # old) new (drop (length (a # old)) (c # cs))
      else c # str_replace (a # old) new cs)"
  by pat_completeness auto
termination
  by (relation "measure (\<lambda>(old, new, s). length s)") auto

text \<open>\<open>sep.join(xs)\<close>.\<close>

fun str_join :: "string \<Rightarrow> string list \<Rightarrow> string" where
  "str_join sep [] = []"
| "str_join sep [x] = x"
| "str_join sep (x # y # xs) = x @ sep @ str_join sep (y # xs)"

text \<open>
  \<open>s.encode("utf8")\<close> for code points below 256: one byte below 128, two bytes
  from there.
\<close>

definition utf8_char :: "char \<Rightarrow> bytes" where
  "utf8_char c =
     (let n = (of_char c :: nat)
      in if n < 128 then [c] else [char_of (192 + n div 64), char_of (128 + n mod 64)])"

definition encode_utf8 :: "string \<Rightarrow> bytes" where
  "encode_utf8 s = concat (map utf8_char s)"

text \<open>
  \<open>b.decode("utf8")\<close>. A lead byte \<open>0xC2\<close> or \<open>0xC3\<close> with its continuation byte is
  a code point from 128 to 255. A lead byte from \<open>0xC4\<close> to \<open>0xF4\<close> starts either a
  code point above 255 or an invalid sequence: the model does not say which. Every
  other byte from 128 on is Python's \<open>UnicodeDecodeError\<close>.
\<close>

fun decode_utf8 :: "bytes \<Rightarrow> error + string" where
  "decode_utf8 [] = Inr []"
| "decode_utf8 (c # cs) =
     (let n = (of_char c :: nat)
      in if n < 128 then (case decode_utf8 cs of Inl e \<Rightarrow> Inl e | Inr s \<Rightarrow> Inr (c # s))
         else if n = 194 \<or> n = 195 then
           (case cs of
              [] \<Rightarrow> Inl UnicodeDecodeError
            | d # ds \<Rightarrow>
                (let m = (of_char d :: nat)
                 in if 128 \<le> m \<and> m < 192 then
                      (case decode_utf8 ds of
                         Inl e \<Rightarrow> Inl e
                       | Inr s \<Rightarrow> Inr (char_of ((n - 192) * 64 + (m - 128)) # s))
                    else Inl UnicodeDecodeError))
         else if 196 \<le> n \<and> n \<le> 244 then Inl Unmodelled
         else Inl UnicodeDecodeError)"

text \<open>\<open>s.encode("ascii")\<close> and \<open>b.decode("ascii")\<close>: the identity on text below 128.\<close>

definition encode_ascii :: "string \<Rightarrow> error + bytes" where
  "encode_ascii s = (if \<forall>c \<in> set s. (of_char c :: nat) < 128 then Inr s else Inl UnicodeEncodeError)"

definition decode_ascii :: "bytes \<Rightarrow> error + string" where
  "decode_ascii b = (if \<forall>c \<in> set b. (of_char c :: nat) < 128 then Inr b else Inl UnicodeDecodeError)"

subsection \<open>\<open>json.dumps\<close> with its defaults\<close>

text \<open>\<open>str(n)\<close> for an integer.\<close>

fun show_nat :: "nat \<Rightarrow> string" where
  "show_nat n =
     (if n < 10 then [''0123456789'' ! n]
      else show_nat (n div 10) @ [''0123456789'' ! (n mod 10)])"

definition show_int :: "int \<Rightarrow> string" where
  "show_int i = (if i < 0 then CHR ''-'' # show_nat (nat (- i)) else show_nat (nat i))"

text \<open>
  \<open>py_encode_basestring_ascii\<close> (\<open>ensure_ascii=True\<close>): the backslash, the quote and
  five control characters have short escapes; every other character outside
  \<open>' '\<close>..\<open>'~'\<close> is written \<open>\<bsol>u00xx\<close> in lower-case hexadecimal.
\<close>

definition hex_digit :: "nat \<Rightarrow> char" where
  "hex_digit n = ''0123456789abcdef'' ! n"

definition escape_char :: "char \<Rightarrow> string" where
  "escape_char c =
     (if c = CHR 0x5C then [CHR 0x5C, CHR 0x5C]
      else if c = CHR 0x22 then [CHR 0x5C, CHR 0x22]
      else if c = CHR 0x08 then [CHR 0x5C, CHR ''b'']
      else if c = CHR 0x0C then [CHR 0x5C, CHR ''f'']
      else if c = CHR 0x0A then [CHR 0x5C, CHR ''n'']
      else if c = CHR 0x0D then [CHR 0x5C, CHR ''r'']
      else if c = CHR 0x09 then [CHR 0x5C, CHR ''t'']
      else if 32 \<le> (of_char c :: nat) \<and> (of_char c :: nat) \<le> 126 then [c]
      else [CHR 0x5C, CHR ''u'', CHR ''0'', CHR ''0'',
            hex_digit ((of_char c :: nat) div 16), hex_digit ((of_char c :: nat) mod 16)])"

definition dumps_str :: "string \<Rightarrow> string" where
  "dumps_str s = CHR 0x22 # concat (map escape_char s) @ [CHR 0x22]"

text \<open>
  \<open>json.dumps(v)\<close>: items are separated by \<open>", "\<close> and a key from its value by
  \<open>": "\<close>.
\<close>

fun json_dumps :: "json \<Rightarrow> string"
and dumps_items :: "json list \<Rightarrow> string"
and dumps_pairs :: "(string \<times> json) list \<Rightarrow> string" where
  "json_dumps JNull = ''null''"
| "json_dumps (JBool b) = (if b then ''true'' else ''false'')"
| "json_dumps (JInt i) = show_int i"
| "json_dumps (JStr s) = dumps_str s"
| "json_dumps (JList xs) = ''['' @ dumps_items xs @ '']''"
| "json_dumps (JObj kvs) = ''{'' @ dumps_pairs kvs @ ''}''"
| "dumps_items [] = []"
| "dumps_items [x] = json_dumps x"
| "dumps_items (x # y # xs) = json_dumps x @ '', '' @ dumps_items (y # xs)"
| "dumps_pairs [] = []"
| "dumps_pairs [(k, v)] = dumps_str k @ '': '' @ json_dumps v"
| "dumps_pairs ((k, v) # p # ps) =
     dumps_str k @ '': '' @ json_dumps v @ '', '' @ dumps_pairs (p # ps)"

subsection \<open>\<open>json.loads\<close>\<close>

text \<open>
  The scanner of CPython's \<open>json\<close> module, on the text that is left to read. Each
  function returns the value it read and the rest of the text, or the error.
  Every syntax error is a \<open>JSONDecodeError\<close>. Floats (a number with a fraction or an
  exponent, \<open>NaN\<close>, \<open>Infinity\<close>) and \<open>\<bsol>u\<close> escapes above 255 are \<open>Unmodelled\<close>.
\<close>

definition is_ws :: "char \<Rightarrow> bool" where
  "is_ws c = (c = CHR '' '' \<or> c = CHR 0x09 \<or> c = CHR 0x0A \<or> c = CHR 0x0D)"

definition skip_ws :: "string \<Rightarrow> string" where
  "skip_ws s = dropWhile is_ws s"

definition is_digit :: "char \<Rightarrow> bool" where
  "is_digit c = (48 \<le> (of_char c :: nat) \<and> (of_char c :: nat) \<le> 57)"

definition digit_val :: "char \<Rightarrow> nat" where
  "digit_val c = of_char c - 48"

definition nat_of_digits :: "string \<Rightarrow> nat" where
  "nat_of_digits ds = foldl (\<lambda>a c. 10 * a + digit_val c) 0 ds"

definition hex_val :: "char \<Rightarrow> nat option" where
  "hex_val c =
     (let n = (of_char c :: nat)
      in if 48 \<le> n \<and> n \<le> 57 then Some (n - 48)
         else if 97 \<le> n \<and> n \<le> 102 then Some (n - 87)
         else if 65 \<le> n \<and> n \<le> 70 then Some (n - 55)
         else None)"

text \<open>The one-letter escapes of \<open>scanstring\<close>.\<close>

definition unescape :: "char \<Rightarrow> char option" where
  "unescape c =
     (if c = CHR 0x22 then Some (CHR 0x22)
      else if c = CHR 0x5C then Some (CHR 0x5C)
      else if c = CHR ''/'' then Some (CHR ''/'')
      else if c = CHR ''b'' then Some (CHR 0x08)
      else if c = CHR ''f'' then Some (CHR 0x0C)
      else if c = CHR ''n'' then Some (CHR 0x0A)
      else if c = CHR ''r'' then Some (CHR 0x0D)
      else if c = CHR ''t'' then Some (CHR 0x09)
      else None)"

text \<open>\<open>\<bsol>uXXXX\<close>: four hexadecimal digits.\<close>

definition decode_uXXXX :: "string \<Rightarrow> error + (char \<times> string)" where
  "decode_uXXXX s =
     (case s of
        h1 # h2 # h3 # h4 # r \<Rightarrow>
          (case (hex_val h1, hex_val h2, hex_val h3, hex_val h4) of
             (Some a, Some b, Some c, Some d) \<Rightarrow>
               (let n = ((a * 16 + b) * 16 + c) * 16 + d
                in if n < 256 then Inr (char_of n, r) else Inl Unmodelled)
           | _ \<Rightarrow> Inl JSONDecodeError)
      | _ \<Rightarrow> Inl JSONDecodeError)"

text \<open>
  \<open>scanstring\<close> (\<open>strict=True\<close>), from the character after the opening quote: the
  text up to the closing quote, with the escapes replaced. A raw control character
  and the end of the text before the closing quote are errors.
\<close>

fun scanstring :: "string \<Rightarrow> string \<Rightarrow> error + (string \<times> string)" where
  "scanstring acc [] = Inl JSONDecodeError"
| "scanstring acc (c # cs) =
     (if c = CHR 0x22 then Inr (acc, cs)
      else if c = CHR 0x5C then
        (case cs of
           [] \<Rightarrow> Inl JSONDecodeError
         | e # es \<Rightarrow>
             if e = CHR ''u'' then
               (case decode_uXXXX es of
                  Inl err \<Rightarrow> Inl err
                | Inr (x, r) \<Rightarrow> scanstring (acc @ [x]) (drop 4 es))
             else
               (case unescape e of
                  None \<Rightarrow> Inl JSONDecodeError
                | Some x \<Rightarrow> scanstring (acc @ [x]) es))
      else if (of_char c :: nat) < 32 then Inl JSONDecodeError
      else scanstring (acc @ [c]) cs)"

text \<open>
  \<open>_match_number\<close>: an optional minus, then \<open>0\<close> or a digit string that does not
  start with \<open>0\<close>. A fraction (\<open>.\<close> and a digit) or an exponent (\<open>e\<close> or \<open>E\<close>, an
  optional sign, a digit) after it makes the number a float.
\<close>

definition is_float_tail :: "string \<Rightarrow> bool" where
  "is_float_tail r =
     (case r of
        [] \<Rightarrow> False
      | c # r' \<Rightarrow>
          if c = CHR ''.'' then (case r' of [] \<Rightarrow> False | d # _ \<Rightarrow> is_digit d)
          else if c = CHR ''e'' \<or> c = CHR ''E'' then
            (case (case r' of
                     [] \<Rightarrow> []
                   | sg # r'' \<Rightarrow> if sg = CHR ''-'' \<or> sg = CHR ''+'' then r'' else r') of
               [] \<Rightarrow> False
             | d # _ \<Rightarrow> is_digit d)
          else False)"

definition match_number :: "string \<Rightarrow> error + (json \<times> string)" where
  "match_number s =
     (let neg = (s \<noteq> [] \<and> hd s = CHR ''-'');
          s1 = (if neg then tl s else s)
      in case s1 of
           [] \<Rightarrow> Inl JSONDecodeError
         | d # r \<Rightarrow>
             if \<not> is_digit d then Inl JSONDecodeError
             else
               (let ds = (if d = CHR ''0'' then [d] else takeWhile is_digit s1);
                    rest = drop (length ds) s1
                in if is_float_tail rest then Inl Unmodelled
                   else Inr (JInt (if neg then - int (nat_of_digits ds) else int (nat_of_digits ds)),
                             rest)))"

text \<open>
  \<open>scan_once\<close>, with the loops of \<open>JSONArray\<close> and \<open>JSONObject\<close>: \<open>array_items\<close>
  starts at a value, \<open>object_items\<close> at a key. The first argument bounds the number
  of calls; \<open>json_loads\<close> gives it a bound in the length of the text.
\<close>

fun scan_once :: "nat \<Rightarrow> string \<Rightarrow> error + (json \<times> string)"
and array_items :: "nat \<Rightarrow> json list \<Rightarrow> string \<Rightarrow> error + (json \<times> string)"
and object_items :: "nat \<Rightarrow> (string \<times> json) list \<Rightarrow> string \<Rightarrow> error + (json \<times> string)" where
  "scan_once 0 s = Inl OutOfFuel"
| "scan_once (Suc n) [] = Inl JSONDecodeError"
| "scan_once (Suc n) (c # cs) =
     (if c = CHR 0x22 then
        (case scanstring [] cs of Inl e \<Rightarrow> Inl e | Inr (x, r) \<Rightarrow> Inr (JStr x, r))
      else if c = CHR ''{'' then
        (case skip_ws cs of
           [] \<Rightarrow> Inl JSONDecodeError
         | d # r \<Rightarrow> if d = CHR ''}'' then Inr (JObj [], r) else object_items n [] (d # r))
      else if c = CHR ''['' then
        (case skip_ws cs of
           [] \<Rightarrow> Inl JSONDecodeError
         | d # r \<Rightarrow> if d = CHR '']'' then Inr (JList [], r) else array_items n [] (d # r))
      else if c = CHR ''n'' \<and> take 3 cs = ''ull'' then Inr (JNull, drop 3 cs)
      else if c = CHR ''t'' \<and> take 3 cs = ''rue'' then Inr (JBool True, drop 3 cs)
      else if c = CHR ''f'' \<and> take 4 cs = ''alse'' then Inr (JBool False, drop 4 cs)
      else if c = CHR ''N'' \<and> take 2 cs = ''aN'' then Inl Unmodelled
      else if c = CHR ''I'' \<and> take 7 cs = ''nfinity'' then Inl Unmodelled
      else if c = CHR ''-'' \<and> take 8 cs = ''Infinity'' then Inl Unmodelled
      else match_number (c # cs))"
| "array_items 0 acc s = Inl OutOfFuel"
| "array_items (Suc n) acc s =
     (case scan_once n s of
        Inl e \<Rightarrow> Inl e
      | Inr (v, r) \<Rightarrow>
          (case skip_ws r of
             [] \<Rightarrow> Inl JSONDecodeError
           | d # r' \<Rightarrow>
               if d = CHR '']'' then Inr (JList (acc @ [v]), r')
               else if d = CHR '','' then array_items n (acc @ [v]) (skip_ws r')
               else Inl JSONDecodeError))"
| "object_items 0 acc s = Inl OutOfFuel"
| "object_items (Suc n) acc s =
     (case s of
        [] \<Rightarrow> Inl JSONDecodeError
      | q # s1 \<Rightarrow>
          if q \<noteq> CHR 0x22 then Inl JSONDecodeError
          else
            (case scanstring [] s1 of
               Inl e \<Rightarrow> Inl e
             | Inr (k, r) \<Rightarrow>
                 (case skip_ws r of
                    [] \<Rightarrow> Inl JSONDecodeError
                  | c # r1 \<Rightarrow>
                      if c \<noteq> CHR '':'' then Inl JSONDecodeError
                      else
                        (case scan_once n (skip_ws r1) of
                           Inl e \<Rightarrow> Inl e
                         | Inr (v, r2) \<Rightarrow>
                             (case skip_ws r2 of
                                [] \<Rightarrow> Inl JSONDecodeError
                              | d # r3 \<Rightarrow>
                                  if d = CHR ''}'' then Inr (JObj (dict_set k v acc), r3)
                                  else if d = CHR '','' then
                                    object_items n (dict_set k v acc) (skip_ws r3)
                                  else Inl JSONDecodeError)))))"

text \<open>
  \<open>json.loads(s)\<close> for a \<open>str\<close>: white space, one value, white space, the end of
  the text.
\<close>

definition json_loads :: "string \<Rightarrow> error + json" where
  "json_loads s =
     (case scan_once (Suc (2 * length s)) (skip_ws s) of
        Inl e \<Rightarrow> Inl e
      | Inr (v, r) \<Rightarrow> if skip_ws r = [] then Inr v else Inl JSONDecodeError)"

text \<open>
  \<open>json.loads(b)\<close> for \<open>bytes\<close>: \<open>detect_encoding\<close>, then the decoding. Only the
  UTF-8 branch is modelled: a byte order mark, or a zero byte where
  \<open>detect_encoding\<close> looks for one, is \<open>Unmodelled\<close>.
\<close>

definition detect_utf8 :: "bytes \<Rightarrow> bool" where
  "detect_utf8 b =
     (\<not> (take 2 b = [CHR 0xFE, CHR 0xFF] \<or> take 2 b = [CHR 0xFF, CHR 0xFE]
         \<or> take 3 b = [CHR 0xEF, CHR 0xBB, CHR 0xBF]
         \<or> take 4 b = [CHR 0x00, CHR 0x00, CHR 0xFE, CHR 0xFF])
      \<and> (if 4 \<le> length b then b ! 0 \<noteq> CHR 0x00 \<and> b ! 1 \<noteq> CHR 0x00
         else if length b = 2 then b ! 0 \<noteq> CHR 0x00 \<and> b ! 1 \<noteq> CHR 0x00
         else True))"

definition json_loads_bytes :: "bytes \<Rightarrow> error + json" where
  "json_loads_bytes b =
     (if \<not> detect_utf8 b then Inl Unmodelled
      else case decode_utf8 b of Inl e \<Rightarrow> Inl e | Inr s \<Rightarrow> json_loads s)"

section \<open>The agent runtime and the broker, as the handlers see them\<close>

text \<open>
  An event holds a reference to its payload object: the payload lives in the heap,
  and every holder of the event reads it through the same address. The broker
  answers a publish with an acknowledgement or an error (\<open>broker\<close>), and the start
  of a new producer succeeds or fails on its options (\<open>producer_start\<close>);
  \<open>attempted\<close> lists every record handed to \<open>send_and_wait\<close>, \<open>sent\<close> the
  acknowledged ones.
  Of a log call the model keeps the level, the fixed part of the message and the
  exception it reports.
\<close>

type_synonym addr = nat

record kafka_record =
  rec_topic :: string
  rec_value :: bytes
  rec_key :: "bytes option"

datatype log_level = DEBUG | INFO | ERROR

datatype log_entry = Log log_level string "error option"

record world =
  heap :: "addr \<Rightarrow> json"
  logged :: "log_entry list"
  attempted :: "kafka_record list"
  sent :: "kafka_record list"
  broker :: "kafka_record \<Rightarrow> error option"
  producer_start :: "(string \<times> json) list \<Rightarrow> error option"
  notified :: "(string \<times> json) list"

record event =
  ev_topic :: string
  ev_payload :: addr

definition log_msg :: "log_level \<Rightarrow> string \<Rightarrow> error option \<Rightarrow> world \<Rightarrow> world" where
  "log_msg l m e w = w\<lparr>logged := logged w @ [Log l m e]\<rparr>"

text \<open>\<open>await producer.send_and_wait(topic, value, key=key)\<close>.\<close>

definition send_and_wait :: "kafka_record \<Rightarrow> world \<Rightarrow> (error + unit) \<times> world" where
  "send_and_wait r w =
     (let w' = w\<lparr>attempted := attempted w @ [r]\<rparr>
      in case broker w r of
           Some e \<Rightarrow> (Inl e, w')
         | None \<Rightarrow> (Inr (), w'\<lparr>sent := sent w @ [r]\<rparr>))"

text \<open>
  \<open>EventBus.notify(profile, event)\<close> of \<open>aries_cloudagent\<close>, the bus that calls
  \<open>handle_event(profile, event)\<close>: it matches \<open>event.topic\<close> against every
  subscribed pattern and calls the subscribers of those that match. \<open>consume\<close>
  calls it as \<open>bus.notify(topic, json.loads(msg.value))\<close>: the topic stands where
  the profile belongs and the parsed value where the event belongs. A value from
  \<open>json.loads\<close> has no attribute \<open>topic\<close>, and \<open>setup\<close> has subscribed four
  patterns to the bus before the loop starts, so the call raises
  \<open>AttributeError\<close> and no event reaches the bus (\<open>notified\<close> lists the events
  the bus has taken).
\<close>

definition notify :: "string \<Rightarrow> json \<Rightarrow> world \<Rightarrow> (error + unit) \<times> world" where
  "notify profile_arg event_arg w = (Inl AttributeError, w)"

section \<open>The fixed-pattern bridge (\<open>kafka_queue/__init__.py\<close>)\<close>

text \<open>
  The profile: its settings (\<open>profile.settings.get\<close>), whether \<open>setup\<close> has bound
  a producer for \<open>profile.inject\<close> to find, and the plugin's section of the
  settings, which only the configurable bridge reads (through \<open>get_config\<close>, below):
  the topic map from the source text of a pattern to a topic template, and the
  options of the producer.
\<close>

record events_config =
  topic_maps :: "(string \<times> string) list"
  producer_opts :: "(string \<times> json) list"

record plugin_config =
  events :: "events_config option"

record profile =
  settings :: "string \<Rightarrow> json option"
  producer_bound :: bool
  plugin_settings :: "plugin_config option"

text \<open>
  \<open>handle_event\<close>. The injection and the assignment \<open>payload["wallet_id"] = ...\<close>
  stand before the \<open>try\<close>: their errors leave the handler. The assignment writes
  to the object \<open>event.payload\<close> refers to; an object that is no \<open>dict\<close> refuses it
  with a \<open>TypeError\<close>.
\<close>

definition handle_event :: "profile \<Rightarrow> event \<Rightarrow> world \<Rightarrow> (error + unit) \<times> world" where
  "handle_event prof ev w =
     (if \<not> producer_bound prof then (Inl InjectionError, w)
      else
        (let w1 = log_msg INFO ''Handling Kafka producer event: %s'' None w;
             topic = str_replace ''::'' ''-'' (ev_topic ev);
             payload = ev_payload ev
         in case heap w1 payload of
              JObj d \<Rightarrow>
                (let w2 = w1\<lparr>heap := (heap w1)
                            (payload := JObj (dict_set ''wallet_id''
                                                (opt_json (settings prof ''wallet.id'')) d))\<rparr>;
                     w3 = log_msg INFO ''Sending message {payload} with Kafka topic {topic}'' None w2
                 in case send_and_wait
                           \<lparr>rec_topic = topic,
                            rec_value = encode_utf8 (json_dumps (heap w3 payload)),
                            rec_key = None\<rparr> w3 of
                      (Inl exc, w4) \<Rightarrow>
                        (Inr (), log_msg ERROR
                                   ''Kafka producer failed sending a message due to: {exc}''
                                   (Some exc) w4)
                    | (Inr u, w4) \<Rightarrow> (Inr (), w4))
            | _ \<Rightarrow> (Inl TypeError, w1)))"

text \<open>
  The loop of \<open>consume\<close>, over the records the consumer has delivered so far, in
  the order of delivery. There is no \<open>try\<close> in the loop: an error of
  \<open>json.loads\<close> or of \<open>bus.notify\<close> ends the task.
\<close>

fun consume :: "kafka_record list \<Rightarrow> world \<Rightarrow> (error + unit) \<times> world" where
  "consume [] w = (Inr (), w)"
| "consume (msg # msgs) w =
     (let topic = str_replace ''-'' ''::'' (rec_topic msg)
      in case json_loads_bytes (rec_value msg) of
           Inl e \<Rightarrow> (Inl e, w)
         | Inr v \<Rightarrow>
             (case notify topic v w of
                (Inl e, w1) \<Rightarrow> (Inl e, w1)
              | (Inr u, w1) \<Rightarrow> consume msgs w1))"

section \<open>The configurable bridge (\<open>kafka_queue/events/__init__.py\<close>)\<close>

subsection \<open>\<open>str\<close> and \<open>repr\<close> of a value\<close>

text \<open>
  \<open>repr\<close> of a \<open>str\<close>: single quotes, unless the text has a single quote and no
  double quote; the quote and the backslash are escaped, tab, newline and return
  have short escapes, and every other character that is not printable is written
  \<open>\<bsol>xhh\<close>. From 128 to 255 the characters that are not printable are
  \<open>0x80\<close>..\<open>0xA0\<close> and \<open>0xAD\<close>.
\<close>

definition repr_char :: "char \<Rightarrow> char \<Rightarrow> string" where
  "repr_char q c =
     (let n = (of_char c :: nat)
      in if c = q \<or> c = CHR 0x5C then [CHR 0x5C, c]
         else if c = CHR 0x09 then [CHR 0x5C, CHR ''t'']
         else if c = CHR 0x0A then [CHR 0x5C, CHR ''n'']
         else if c = CHR 0x0D then [CHR 0x5C, CHR ''r'']
         else if n < 32 \<or> n = 127 \<or> (128 \<le> n \<and> n \<le> 160) \<or> n = 173 then
           [CHR 0x5C, CHR ''x'', hex_digit (n div 16), hex_digit (n mod 16)]
         else [c])"

definition repr_str :: "string \<Rightarrow> string" where
  "repr_str s =
     (let q = (if CHR 0x27 \<in> set s \<and> CHR 0x22 \<notin> set s then CHR 0x22 else CHR 0x27)
      in q # concat (map (repr_char q) s) @ [q])"

fun py_repr :: "json \<Rightarrow> string"
and repr_items :: "json list \<Rightarrow> string"
and repr_pairs :: "(string \<times> json) list \<Rightarrow> string" where
  "py_repr JNull = ''None''"
| "py_repr (JBool b) = (if b then ''True'' else ''False'')"
| "py_repr (JInt i) = show_int i"
| "py_repr (JStr s) = repr_str s"
| "py_repr (JList xs) = ''['' @ repr_items xs @ '']''"
| "py_repr (JObj kvs) = ''{'' @ repr_pairs kvs @ ''}''"
| "repr_items [] = []"
| "repr_items [x] = py_repr x"
| "repr_items (x # y # xs) = py_repr x @ '', '' @ repr_items (y # xs)"
| "repr_pairs [] = []"
| "repr_pairs [(k, v)] = repr_str k @ '': '' @ py_repr v"
| "repr_pairs ((k, v) # p # ps) =
     repr_str k @ '': '' @ py_repr v @ '', '' @ repr_pairs (p # ps)"

definition py_str :: "json \<Rightarrow> string" where
  "py_str v = (case v of JStr s \<Rightarrow> s | _ \<Rightarrow> py_repr v)"

text \<open>The truth value of a Python value (\<open>x or y\<close>, \<open>if x\<close>).\<close>

fun py_truthy :: "json \<Rightarrow> bool" where
  "py_truthy JNull = False"
| "py_truthy (JBool b) = b"
| "py_truthy (JInt i) = (i \<noteq> 0)"
| "py_truthy (JStr s) = (s \<noteq> [])"
| "py_truthy (JList xs) = (xs \<noteq> [])"
| "py_truthy (JObj kvs) = (kvs \<noteq> [])"

subsection \<open>\<open>string.Template.substitute\<close>\<close>

text \<open>
  After a \<open>$\<close> the pattern of \<open>Template\<close> tries, in this order: a second \<open>$\<close> (one
  \<open>$\<close> is written); an identifier (\<open>$name\<close>); an identifier in braces (\<open>${name}\<close>);
  anything else is the \<open>ValueError\<close> of an invalid placeholder. A name is replaced
  by \<open>str(mapping[name])\<close>; a name the mapping lacks is a \<open>KeyError\<close>.
\<close>

definition is_id_start :: "char \<Rightarrow> bool" where
  "is_id_start c =
     (let n = (of_char c :: nat)
      in c = CHR ''_'' \<or> (97 \<le> n \<and> n \<le> 122) \<or> (65 \<le> n \<and> n \<le> 90))"

definition is_id_char :: "char \<Rightarrow> bool" where
  "is_id_char c = (is_id_start c \<or> is_digit c)"

function substitute :: "(string \<times> json) list \<Rightarrow> string \<Rightarrow> error + string" where
  "substitute m [] = Inr []"
| "substitute m (c # cs) =
     (if c \<noteq> CHR ''$'' then
        (case substitute m cs of Inl e \<Rightarrow> Inl e | Inr r \<Rightarrow> Inr (c # r))
      else
        (case cs of
           [] \<Rightarrow> Inl (ValueError ''Invalid placeholder in string'')
         | d # ds \<Rightarrow>
             if d = CHR ''$'' then
               (case substitute m ds of Inl e \<Rightarrow> Inl e | Inr r \<Rightarrow> Inr (CHR ''$'' # r))
             else if is_id_start d then
               (case dict_get m (takeWhile is_id_char cs) of
                  None \<Rightarrow> Inl (KeyError (takeWhile is_id_char cs))
                | Some v \<Rightarrow>
                    (case substitute m (dropWhile is_id_char cs) of
                       Inl e \<Rightarrow> Inl e
                     | Inr r \<Rightarrow> Inr (py_str v @ r)))
             else if d = CHR ''{'' \<and> ds \<noteq> [] \<and> is_id_start (hd ds)
                     \<and> take 1 (dropWhile is_id_char ds) = ''}'' then
               (case dict_get m (takeWhile is_id_char ds) of
                  None \<Rightarrow> Inl (KeyError (takeWhile is_id_char ds))
                | Some v \<Rightarrow>
                    (case substitute m (drop 1 (dropWhile is_id_char ds)) of
                       Inl e \<Rightarrow> Inl e
                     | Inr r \<Rightarrow> Inr (py_str v @ r)))
             else Inl (ValueError ''Invalid placeholder in string'')))"
  by pat_completeness auto
termination
proof (relation "measure (\<lambda>(m, s). length s)")
  show "wf (measure (\<lambda>(m, s). length s))"
    by simp
next
  fix m :: "(string \<times> json) list" and c :: char and cs :: string
  show "((m, cs), (m, c # cs)) \<in> measure (\<lambda>(m, s). length s)"
    by simp
next
  fix m :: "(string \<times> json) list" and c :: char and cs :: string and d :: char and ds :: string
  assume "cs = d # ds"
  then show "((m, ds), (m, c # cs)) \<in> measure (\<lambda>(m, s). length s)"
    by simp
next
  fix m :: "(string \<times> json) list" and c :: char and cs :: string
  have "length (dropWhile is_id_char cs) \<le> length cs"
    by (rule length_dropWhile_le)
  then show "((m, dropWhile is_id_char cs), (m, c # cs)) \<in> measure (\<lambda>(m, s). length s)"
    by simp
next
  fix m :: "(string \<times> json) list" and c :: char and cs :: string and d :: char and ds :: string
  assume "cs = d # ds"
  moreover have "length (dropWhile is_id_char ds) \<le> length ds"
    by (rule length_dropWhile_le)
  ultimately show "((m, drop 1 (dropWhile is_id_char ds)), (m, c # cs))
      \<in> measure (\<lambda>(m, s). length s)"
    by simp
qed

subsection \<open>The patterns of \<open>_derive_category\<close>\<close>

text \<open>
  \<open>RECORD_RE.match(topic)\<close>, for \<open>acapy::record::([^:]*)(?:::(.*))?\<close>: the match
  starts at the first character and need not reach the last, so it succeeds as
  soon as the topic starts with \<open>acapy::record::\<close>; group 1 is the longest run
  without a colon that follows.
\<close>

definition RECORD_RE_group1 :: "string \<Rightarrow> string option" where
  "RECORD_RE_group1 topic =
     (if take 15 topic = ''acapy::record::''
      then Some (takeWhile (\<lambda>c. c \<noteq> CHR '':'') (drop 15 topic))
      else None)"

text \<open>
  \<open>WEBHOOK_RE.match(topic)\<close>, for \<open>acapy::webhook::{.*}\<close>: the brace is a literal
  and \<open>.\<close> matches every character but the newline, so the topic starts with
  \<open>acapy::webhook::{\<close> and a \<open>}\<close> follows before any newline.
\<close>

definition WEBHOOK_RE_match :: "string \<Rightarrow> bool" where
  "WEBHOOK_RE_match topic =
     (take 17 topic = ''acapy::webhook::{''
      \<and> CHR ''}'' \<in> set (takeWhile (\<lambda>c. c \<noteq> CHR 0x0A) (drop 17 topic)))"

definition derive_category :: "string \<Rightarrow> string option" where
  "derive_category topic =
     (case RECORD_RE_group1 topic of
        Some g \<Rightarrow> Some g
      | None \<Rightarrow> if WEBHOOK_RE_match topic then Some ''webhook'' else None)"

subsection \<open>The configuration and the handler\<close>

text \<open>
  Modelled from the spec: \<open>EventsConfig.default\<close> and \<open>get_config\<close> live in
  \<open>kafka_queue/config.py\<close>, which is not among the sources. The default has an
  empty topic map; the specification leaves its producer options open, and nothing
  here depends on them. \<open>get_config\<close> returns the parsed section of the settings,
  or a configuration without \<open>events\<close> when the settings have no such section.
\<close>

definition EventsConfig_default :: events_config where
  "EventsConfig_default = \<lparr>topic_maps = [], producer_opts = []\<rparr>"

definition get_config :: "profile \<Rightarrow> plugin_config" where
  "get_config prof =
     (case plugin_settings prof of None \<Rightarrow> \<lparr>events = None\<rparr> | Some c \<Rightarrow> c)"

text \<open>\<open>get_config(profile.settings).events or EventsConfig.default()\<close>.\<close>

definition events_or_default :: "profile \<Rightarrow> events_config" where
  "events_or_default prof =
     (case events (get_config prof) of None \<Rightarrow> EventsConfig_default | Some c \<Rightarrow> c)"

record event_with_metadata = event +
  ev_pattern :: string

text \<open>
  The body of the \<open>try\<close>. \<open>async with AIOKafkaProducer(**opts) as producer\<close>:
  building and starting the producer can fail (stopping it is taken not to); the
  world's \<open>broker\<close> answers the publish. The key is computed among the arguments of
  \<open>send_and_wait\<close>: \<open>wallet_id.encode()\<close> needs a \<open>str\<close>.
\<close>

definition wallet_key :: "json \<Rightarrow> error + bytes option" where
  "wallet_key wallet_id =
     (if py_truthy wallet_id then
        (case wallet_id of JStr s \<Rightarrow> Inr (Some (encode_utf8 s)) | _ \<Rightarrow> Inl AttributeError)
      else Inr None)"

definition events_publish ::
  "events_config \<Rightarrow> string \<Rightarrow> json \<Rightarrow> (string \<times> json) list \<Rightarrow> world \<Rightarrow>
   (error + unit) \<times> world" where
  "events_publish config pat wallet_id payload w =
     (case map_of (topic_maps config) pat of
        None \<Rightarrow> (Inl (KeyError pat), w)
      | Some template \<Rightarrow>
          (case substitute payload template of
             Inl e \<Rightarrow> (Inl e, w)
           | Inr kafka_topic \<Rightarrow>
               (let w1 = log_msg INFO
                           ''Sending message {payload} with Kafka topic {kafka_topic}'' None w
                in case producer_start w1 (producer_opts config) of
                     Some e \<Rightarrow> (Inl e, w1)
                   | None \<Rightarrow>
                       (case wallet_key wallet_id of
                          Inl e \<Rightarrow> (Inl e, w1)
                        | Inr k \<Rightarrow>
                            send_and_wait
                              \<lparr>rec_topic = kafka_topic,
                               rec_value = encode_utf8 (json_dumps (JObj payload)),
                               rec_key = k\<rparr> w1))))"

text \<open>
  The \<open>dict\<close> the handler builds from the wallet id, the topic and the \<open>dict\<close>
  behind \<open>event.payload\<close>: \<open>wallet_id or "base"\<close>, \<open>event.payload.get("state")\<close>,
  the topic, its category, and the payload itself.
\<close>

definition event_payload :: "json \<Rightarrow> string \<Rightarrow> (string \<times> json) list \<Rightarrow> (string \<times> json) list" where
  "event_payload wallet_id topic d =
     [(''wallet_id'', if py_truthy wallet_id then wallet_id else JStr ''base''),
      (''state'', opt_json (dict_get d ''state'')),
      (''topic'', JStr topic),
      (''category'', (case derive_category topic of None \<Rightarrow> JNull | Some c \<Rightarrow> JStr c)),
      (''payload'', JObj d)]"

text \<open>
  \<open>handle_event\<close> of the configurable bridge. \<open>event.payload.get("state")\<close> stands
  before the \<open>try\<close> and needs a \<open>dict\<close>. The handler builds a new \<open>dict\<close> and writes
  nothing to the object \<open>event.payload\<close> refers to.
\<close>

definition events_handle_event ::
  "profile \<Rightarrow> event_with_metadata \<Rightarrow> world \<Rightarrow> (error + unit) \<times> world" where
  "events_handle_event prof ev w =
     (let w1 = log_msg INFO ''Handling Kafka producer event: %s'' None w;
          wallet_id = opt_json (settings prof ''wallet.id'')
      in case heap w1 (ev_payload ev) of
           JObj d \<Rightarrow>
             (let config = events_or_default prof
              in case events_publish config (ev_pattern ev) wallet_id
                        (event_payload wallet_id (ev_topic ev) d) w1 of
                   (Inl exc, w2) \<Rightarrow>
                     (Inr (), log_msg ERROR ''Kafka producer failed to send message''
                                (Some exc) w2)
                 | (Inr u, w2) \<Rightarrow> (Inr (), w2))
         | _ \<Rightarrow> (Inl AttributeError, w1))"

section \<open>Base64 (\<open>base64\<close>, \<open>binascii\<close>)\<close>

text \<open>The standard alphabet, and the two characters the URL-safe one changes.\<close>

definition b64_char :: "nat \<Rightarrow> char" where
  "b64_char v =
     (if v < 26 then char_of (65 + v)
      else if v < 52 then char_of (71 + v)
      else if v < 62 then char_of (v - 4)
      else if v = 62 then CHR ''+''
      else CHR ''/'')"

definition b64_val :: "char \<Rightarrow> nat option" where
  "b64_val c =
     (let n = (of_char c :: nat)
      in if 65 \<le> n \<and> n \<le> 90 then Some (n - 65)
         else if 97 \<le> n \<and> n \<le> 122 then Some (n - 71)
         else if 48 \<le> n \<and> n \<le> 57 then Some (n + 4)
         else if c = CHR ''+'' then Some 62
         else if c = CHR ''/'' then Some 63
         else None)"

definition urlsafe_encode_translation :: "char \<Rightarrow> char" where
  "urlsafe_encode_translation c =
     (if c = CHR ''+'' then CHR ''-'' else if c = CHR ''/'' then CHR ''_'' else c)"

definition urlsafe_decode_translation :: "char \<Rightarrow> char" where
  "urlsafe_decode_translation c =
     (if c = CHR ''-'' then CHR ''+'' else if c = CHR ''_'' then CHR ''/'' else c)"

text \<open>
  \<open>base64.b64encode\<close>: three bytes give four characters; one or two bytes left
  over give two or three characters and the padding.
\<close>

fun b64encode :: "bytes \<Rightarrow> string" where
  "b64encode [] = []"
| "b64encode [a] =
     (let x = (of_char a :: nat)
      in [b64_char (x div 4), b64_char (x mod 4 * 16), CHR ''='', CHR ''=''])"
| "b64encode [a, b] =
     (let x = (of_char a :: nat); y = (of_char b :: nat)
      in [b64_char (x div 4), b64_char (x mod 4 * 16 + y div 16),
          b64_char (y mod 16 * 4), CHR ''=''])"
| "b64encode (a # b # c # bs) =
     (let x = (of_char a :: nat); y = (of_char b :: nat); z = (of_char c :: nat)
      in [b64_char (x div 4), b64_char (x mod 4 * 16 + y div 16),
          b64_char (y mod 16 * 4 + z div 64), b64_char (z mod 64)])
     @ b64encode bs"

definition urlsafe_b64encode :: "bytes \<Rightarrow> string" where
  "urlsafe_b64encode bs = map urlsafe_encode_translation (b64encode bs)"

text \<open>
  \<open>binascii.a2b_base64\<close> as \<open>b64decode\<close> calls it (no validation; CPython 3.7 to
  3.10). Characters outside the alphabet are skipped. A \<open>=\<close> ends the input when
  the current group has three characters, or two and the next valid character is
  a \<open>=\<close> too; any other \<open>=\<close> is skipped. Bits left over at the end are an error.
  \<open>find_valid\<close> is \<open>binascii_find_valid\<close>, where \<open>=\<close> counts as valid.
\<close>

fun find_valid :: "string \<Rightarrow> nat \<Rightarrow> char option" where
  "find_valid [] num = None"
| "find_valid (c # cs) num =
     (if b64_val c \<noteq> None \<or> c = CHR ''='' then
        (if num = 0 then Some c else find_valid cs (num - 1))
      else find_valid cs num)"

fun a2b_loop :: "nat \<Rightarrow> nat \<Rightarrow> nat \<Rightarrow> string \<Rightarrow> bytes \<Rightarrow> nat \<times> bytes" where
  "a2b_loop quad_pos leftchar leftbits [] out = (leftbits, out)"
| "a2b_loop quad_pos leftchar leftbits (c # cs) out =
     (if (of_char c :: nat) > 127 \<or> c = CHR 0x0D \<or> c = CHR 0x0A \<or> c = CHR '' '' then
        a2b_loop quad_pos leftchar leftbits cs out
      else if c = CHR ''='' then
        (if quad_pos < 2 \<or> (quad_pos = 2 \<and> find_valid (c # cs) 1 \<noteq> Some (CHR ''=''))
         then a2b_loop quad_pos leftchar leftbits cs out
         else (0, out))
      else
        (case b64_val c of
           None \<Rightarrow> a2b_loop quad_pos leftchar leftbits cs out
         | Some v \<Rightarrow>
             (let q = (quad_pos + 1) mod 4;
                  lc = leftchar * 64 + v;
                  lb = leftbits + 6
              in if lb \<ge> 8 then
                   a2b_loop q (lc mod 2 ^ (lb - 8)) (lb - 8) cs
                     (out @ [char_of (lc div 2 ^ (lb - 8) mod 256)])
                 else a2b_loop q lc lb cs out)))"

definition a2b_base64 :: "bytes \<Rightarrow> error + bytes" where
  "a2b_base64 s =
     (case a2b_loop 0 0 0 s [] of
        (leftbits, out) \<Rightarrow> if leftbits \<noteq> 0 then Inl BinasciiError else Inr out)"

text \<open>\<open>base64.urlsafe_b64decode\<close> of \<open>bytes\<close>, and of a \<open>str\<close>, which must be ASCII.\<close>

definition urlsafe_b64decode :: "bytes \<Rightarrow> error + bytes" where
  "urlsafe_b64decode b = a2b_base64 (map urlsafe_decode_translation b)"

definition urlsafe_b64decode_str :: "string \<Rightarrow> error + bytes" where
  "urlsafe_b64decode_str s =
     (case encode_ascii s of
        Inl e \<Rightarrow> Inl (ValueError ''string argument should contain only ASCII characters'')
      | Inr b \<Rightarrow> urlsafe_b64decode b)"

section \<open>The queue payload model (\<open>deliverer/deliverer/__init__.py\<close>)\<close>

record Service =
  url :: string

record OutboundPayload =
  service :: Service
  payload :: bytes
  retries :: int
  priv_endpoint_scheme :: string

definition endpoint_scheme :: "OutboundPayload \<Rightarrow> string" where
  "endpoint_scheme p = priv_endpoint_scheme p"

text \<open>
  The validation pydantic (version 1) runs on the keyword arguments. A \<open>str\<close>
  field takes a \<open>str\<close>, and the \<open>str()\<close> of a number; an \<open>int\<close> field takes an
  \<open>int\<close>, and a \<open>bool\<close> as 0 or 1. The coercions of other shapes that pydantic
  tries (a numeric \<open>str\<close> for an \<open>int\<close>, a list of pairs for a model) are
  \<open>Unmodelled\<close>. The first field that fails decides the error.
\<close>

definition validate_str :: "json \<Rightarrow> error + string" where
  "validate_str v =
     (case v of
        JStr s \<Rightarrow> Inr s
      | JInt i \<Rightarrow> Inr (show_int i)
      | JBool b \<Rightarrow> Inr (if b then ''True'' else ''False'')
      | _ \<Rightarrow> Inl ValidationError)"

definition validate_int :: "json \<Rightarrow> error + int" where
  "validate_int v =
     (case v of
        JInt i \<Rightarrow> Inr i
      | JBool b \<Rightarrow> Inr (if b then 1 else 0)
      | JStr s \<Rightarrow> Inl Unmodelled
      | _ \<Rightarrow> Inl ValidationError)"

definition validate_Service :: "json \<Rightarrow> error + Service" where
  "validate_Service v =
     (case v of
        JObj d \<Rightarrow>
          (case dict_get d ''url'' of
             None \<Rightarrow> Inl ValidationError
           | Some u \<Rightarrow> (case validate_str u of Inl e \<Rightarrow> Inl e | Inr s \<Rightarrow> Inr \<lparr>url = s\<rparr>))
      | JList xs \<Rightarrow> Inl Unmodelled
      | _ \<Rightarrow> Inl ValidationError)"

text \<open>
  \<open>decode_payload_to_bytes\<close>, the validator that runs before the field's own: the
  assertion and the errors of \<open>urlsafe_b64decode\<close> reach the caller as pydantic's
  \<open>ValidationError\<close>.
\<close>

definition decode_payload_to_bytes :: "json \<Rightarrow> error + bytes" where
  "decode_payload_to_bytes v =
     (case v of
        JStr s \<Rightarrow>
          (case urlsafe_b64decode_str s of Inl e \<Rightarrow> Inl ValidationError | Inr b \<Rightarrow> Inr b)
      | _ \<Rightarrow> Inl ValidationError)"

text \<open>
  \<open>OutboundPayload.__init__\<close>: the validation, then the scheme of the URL.
  \<open>urlparse\<close> is a library function whose result differs between Python versions
  and which raises on some URLs; it is the parameter \<open>scheme_of\<close>.
\<close>

definition OutboundPayload_init ::
  "(string \<Rightarrow> error + string) \<Rightarrow> (string \<times> json) list \<Rightarrow> error + OutboundPayload" where
  "OutboundPayload_init scheme_of kwargs =
     (case dict_get kwargs ''service'' of
        None \<Rightarrow> Inl ValidationError
      | Some sv \<Rightarrow>
          (case validate_Service sv of
             Inl e \<Rightarrow> Inl e
           | Inr svc \<Rightarrow>
               (case dict_get kwargs ''payload'' of
                  None \<Rightarrow> Inl ValidationError
                | Some pv \<Rightarrow>
                    (case decode_payload_to_bytes pv of
                       Inl e \<Rightarrow> Inl e
                     | Inr b \<Rightarrow>
                         (case (case dict_get kwargs ''retries'' of
                                  None \<Rightarrow> Inr 0 | Some rv \<Rightarrow> validate_int rv) of
                            Inl e \<Rightarrow> Inl e
                          | Inr n \<Rightarrow>
                              (case scheme_of (url svc) of
                                 Inl e \<Rightarrow> Inl e
                               | Inr sch \<Rightarrow>
                                   Inr \<lparr>service = svc, payload = b, retries = n,
                                        priv_endpoint_scheme = sch\<rparr>))))))"

text \<open>\<open>from_bytes\<close>: \<open>cls(**payload)\<close> needs a mapping.\<close>

definition from_bytes :: "(string \<Rightarrow> error + string) \<Rightarrow> bytes \<Rightarrow> error + OutboundPayload" where
  "from_bytes scheme_of raw =
     (case decode_utf8 raw of
        Inl e \<Rightarrow> Inl e
      | Inr txt \<Rightarrow>
          (case json_loads txt of
             Inl e \<Rightarrow> Inl e
           | Inr j \<Rightarrow>
               (case j of
                  JObj kwargs \<Rightarrow> OutboundPayload_init scheme_of kwargs
                | _ \<Rightarrow> Inl TypeError)))"

text \<open>
  \<open>to_bytes\<close>: \<open>self.json()\<close> writes the fields in the order of their declaration,
  the bytes through the encoder of \<open>Config.json_encoders\<close>; the private attribute
  is not a field.
\<close>

definition to_json :: "OutboundPayload \<Rightarrow> json" where
  "to_json p =
     JObj [(''service'', JObj [(''url'', JStr (url (service p)))]),
           (''payload'', JStr (urlsafe_b64encode (payload p))),
           (''retries'', JInt (retries p))]"

definition to_bytes :: "OutboundPayload \<Rightarrow> bytes" where
  "to_bytes p = encode_utf8 (json_dumps (to_json p))"

section \<open>The HTTP relay (\<open>http_kafka_relay/relay/__init__.py\<close>)\<close>

definition DEFAULT_INBOUND_TOPIC :: string where
  "DEFAULT_INBOUND_TOPIC = ''acapy-inbound-message''"

text \<open>\<open>os.environ.get("INBOUND_TOPIC", DEFAULT_INBOUND_TOPIC)\<close>.\<close>

definition INBOUND_TOPIC :: "(string \<Rightarrow> string option) \<Rightarrow> string" where
  "INBOUND_TOPIC env =
     (case env ''INBOUND_TOPIC'' of None \<Rightarrow> DEFAULT_INBOUND_TOPIC | Some t \<Rightarrow> t)"

text \<open>
  \<open>b64_to_bytes\<close>, called with a value read from JSON. A \<open>str\<close> is encoded as
  ASCII; a value that is neither \<open>str\<close> nor \<open>bytes\<close> ends in a \<open>TypeError\<close>, at
  \<open>len\<close>, at \<open>+=\<close> or in the decoder.
\<close>

definition b64_to_bytes :: "json \<Rightarrow> bool \<Rightarrow> error + bytes" where
  "b64_to_bytes val urlsafe =
     (case val of
        JStr s \<Rightarrow>
          (case encode_ascii s of
             Inl e \<Rightarrow> Inl e
           | Inr b \<Rightarrow>
               if urlsafe then
                 (let missing_padding = length b mod 4
                  in urlsafe_b64decode
                       (if missing_padding \<noteq> 0
                        then b @ replicate (4 - missing_padding) (CHR ''='')
                        else b))
               else a2b_base64 b)
      | _ \<Rightarrow> Inl TypeError)"

text \<open>\<open>v[k]\<close> for a string key, and the iteration of \<open>for x in v\<close>.\<close>

definition subscript :: "json \<Rightarrow> string \<Rightarrow> error + json" where
  "subscript v k =
     (case v of
        JObj d \<Rightarrow> (case dict_get d k of None \<Rightarrow> Inl (KeyError k) | Some x \<Rightarrow> Inr x)
      | _ \<Rightarrow> Inl TypeError)"

definition py_iter :: "json \<Rightarrow> error + json list" where
  "py_iter v =
     (case v of
        JList xs \<Rightarrow> Inr xs
      | JStr s \<Rightarrow> Inr (map (\<lambda>c. JStr [c]) s)
      | JObj d \<Rightarrow> Inr (map (\<lambda>kv. JStr (fst kv)) d)
      | _ \<Rightarrow> Inl TypeError)"

text \<open>The comprehension \<open>[recip["header"]["kid"] for recip in ...]\<close>.\<close>

fun header_kids :: "json list \<Rightarrow> error + json list" where
  "header_kids [] = Inr []"
| "header_kids (recip # recips) =
     (case subscript recip ''header'' of
        Inl e \<Rightarrow> Inl e
      | Inr h \<Rightarrow>
          (case subscript h ''kid'' of
             Inl e \<Rightarrow> Inl e
           | Inr k \<Rightarrow>
               (case header_kids recips of Inl e \<Rightarrow> Inl e | Inr ks \<Rightarrow> Inr (k # ks))))"

text \<open>
  \<open>_recipients_from_packed_message\<close>. Only the two calls of \<open>json.loads\<close> stand in
  a \<open>try\<close>; the subscripts, the Base64 decoding and \<open>decode("ascii")\<close> raise their
  own errors.
\<close>

definition recipients_from_packed_message :: "bytes \<Rightarrow> error + json list" where
  "recipients_from_packed_message packed_message =
     (case json_loads_bytes packed_message of
        Inl e \<Rightarrow>
          Inl (if e = Unmodelled \<or> e = OutOfFuel then e else ValueError ''Invalid packed message'')
      | Inr wrapper \<Rightarrow>
          (case subscript wrapper ''protected'' of
             Inl e \<Rightarrow> Inl e
           | Inr prot \<Rightarrow>
               (case b64_to_bytes prot True of
                  Inl e \<Rightarrow> Inl e
                | Inr raw \<Rightarrow>
                    (case decode_ascii raw of
                       Inl e \<Rightarrow> Inl e
                     | Inr recips_json \<Rightarrow>
                         (case json_loads recips_json of
                            Inl e \<Rightarrow>
                              Inl (if e = Unmodelled \<or> e = OutOfFuel then e
                                   else ValueError ''Invalid packed message recipients'')
                          | Inr recips_outer \<Rightarrow>
                              (case subscript recips_outer ''recipients'' of
                                 Inl e \<Rightarrow> Inl e
                               | Inr rs \<Rightarrow>
                                   (case py_iter rs of
                                      Inl e \<Rightarrow> Inl e
                                    | Inr xs \<Rightarrow> header_kids xs)))))))"

text \<open>\<open>",".join(xs)\<close> needs every item to be a \<open>str\<close>.\<close>

fun strs_of :: "json list \<Rightarrow> error + string list" where
  "strs_of [] = Inr []"
| "strs_of (x # xs) =
     (case x of
        JStr s \<Rightarrow> (case strs_of xs of Inl e \<Rightarrow> Inl e | Inr ss \<Rightarrow> Inr (s # ss))
      | _ \<Rightarrow> Inl TypeError)"

record response =
  status_code :: nat
  body :: bytes

text \<open>
  \<open>receive_message\<close>. The f-string of the info line reads \<open>recips[0]\<close>, the first
  byte of the key, before anything is logged or sent.
\<close>

definition receive_message ::
  "(string \<Rightarrow> string option) \<Rightarrow> bytes \<Rightarrow> world \<Rightarrow> (error + response) \<times> world" where
  "receive_message env message w =
     (let w1 = log_msg DEBUG ''Received message, pushing to Kafka: %s'' None w
      in case recipients_from_packed_message message of
           Inl e \<Rightarrow> (Inl e, w1)
         | Inr ks \<Rightarrow>
             (case strs_of ks of
                Inl e \<Rightarrow> (Inl e, w1)
              | Inr ss \<Rightarrow>
                  (let recips = encode_utf8 (str_join '','' ss)
                   in case recips of
                        [] \<Rightarrow> (Inl IndexError, w1)
                      | b0 # bs \<Rightarrow>
                          (let w2 = log_msg INFO
                                      ''Sending Kafka event with topic, message, key''
                                      None w1
                           in case send_and_wait
                                     \<lparr>rec_topic = INBOUND_TOPIC env, rec_value = message,
                                      rec_key = Some recips\<rparr> w2 of
                                (Inl e, w3) \<Rightarrow> (Inl e, w3)
                              | (Inr u, w3) \<Rightarrow>
                                  (Inr \<lparr>status_code = 200, body = []\<rparr>, w3)))))"

section \<open>Inputs for the closed theorems\<close>

text \<open>
  A world whose broker acknowledges and one whose broker refuses; the object at
  address 0 is \<open>{"state": "active"}\<close>, every other object is \<open>{}\<close>.
\<close>

definition example_heap :: "addr \<Rightarrow> json" where
  "example_heap a = (if a = 0 then JObj [(''state'', JStr ''active'')] else JObj [])"

definition accepting_broker :: "kafka_record \<Rightarrow> error option" where
  "accepting_broker r = None"

definition starting_producer :: "(string \<times> json) list \<Rightarrow> error option" where
  "starting_producer opts = None"

definition example_world :: world where
  "example_world =
     \<lparr>heap = example_heap, logged = [], attempted = [], sent = [],
      broker = accepting_broker, producer_start = starting_producer, notified = []\<rparr>"

definition no_settings :: "string \<Rightarrow> json option" where
  "no_settings k = None"

definition example_profile :: profile where
  "example_profile =
     \<lparr>settings = no_settings, producer_bound = True, plugin_settings = None\<rparr>"

definition refusing_broker :: "kafka_record \<Rightarrow> error option" where
  "refusing_broker r = Some (KafkaError ''broker unavailable'')"

definition refusing_world :: world where
  "refusing_world = example_world\<lparr>broker := refusing_broker\<rparr>"

definition base_settings :: "string \<Rightarrow> json option" where
  "base_settings k = (if k = ''wallet.id'' then Some (JStr ''alice'') else None)"

definition connections_profile :: profile where
  "connections_profile =
     \<lparr>settings = no_settings, producer_bound = True,
      plugin_settings =
        Some \<lparr>events = Some \<lparr>topic_maps = [(''acapy::record::connections::active'',
                                              ''${category}-${state}'')],
                               producer_opts = []\<rparr>\<rparr>\<rparr>"

definition connections_event :: "addr \<Rightarrow> event_with_metadata" where
  "connections_event a =
     \<lparr>ev_topic = ''acapy::record::connections::active'', ev_payload = a,
      ev_pattern = ''acapy::record::connections::active''\<rparr>"

definition inbound_records :: "kafka_record list" where
  \<open>inbound_records =
     [\<lparr>rec_topic = ''acapy-inbound-message'', rec_value = ''{"n": 1}'', rec_key = None\<rparr>,
      \<lparr>rec_topic = ''acapy-inbound-ping'', rec_value = ''[true]'', rec_key = None\<rparr>]\<close>

text \<open>
  Requests to the relay: a packed message with the recipients \<open>A\<close> and \<open>B\<close> (the
  \<open>protected\<close> segment without its padding), one whose only recipient has the empty
  \<open>kid\<close>, one whose \<open>protected\<close> segment is UTF-8 JSON with the \<open>kid\<close> \<open>U+00E9\<close>
  (the bytes \<open>0xC3 0xA9\<close>), and one without recipients.
\<close>

definition no_env :: "string \<Rightarrow> string option" where
  "no_env k = None"





definition packed_no_recipients :: bytes where
  \<open>packed_no_recipients = ''{"protected": "eyJyZWNpcGllbnRzIjpbXX0="}''\<close>

text \<open>
  A queue payload for the deliverer, and \<open>urlparse(u).scheme\<close> at its URL, where
  the library gives \<open>http\<close>; no other URL is looked up.
\<close>

definition example_urlparse_scheme :: "string \<Rightarrow> error + string" where
  "example_urlparse_scheme u =
     (if u = ''http://example.org/inbox'' then Inr ''http'' else Inl Unmodelled)"

definition example_payload :: OutboundPayload where
  "example_payload =
     \<lparr>service = \<lparr>url = ''http://example.org/inbox''\<rparr>, payload = [CHR 0xFB, CHR 0xFF],
      retries = 3, priv_endpoint_scheme = ''http''\<rparr>"

section \<open>The fixed-pattern bridge: outbound events\<close>

lemma dict_get_dict_set:
  "dict_get (dict_set k v d) k' = (if k' = k then Some v else dict_get d k')"
  by (induction d) auto

text \<open>
  C4. When the producer is bound, the event's payload is a \<open>dict\<close> and the broker
  acknowledges, \<open>handle_event\<close> of the fixed-pattern bridge returns normally and
  publishes exactly one record: its topic is the event topic with every \<open>::\<close>
  replaced by \<open>-\<close>, its value is the JSON text of the payload \<open>dict\<close> in which
  \<open>wallet_id\<close> holds the profile's \<open>wallet.id\<close> setting (\<open>null\<close> when the setting is
  absent), and it has no key.
\<close>

theorem C4_handle_event_publishes:
  assumes "producer_bound prof"
    and "heap w (ev_payload ev) = JObj d"
    and "broker w \<lparr>rec_topic = str_replace ''::'' ''-'' (ev_topic ev),
           rec_value = encode_utf8 (json_dumps (JObj (dict_set ''wallet_id''
                         (opt_json (settings prof ''wallet.id'')) d))),
           rec_key = None\<rparr> = None"
  shows "fst (handle_event prof ev w) = Inr ()
    \<and> sent (snd (handle_event prof ev w)) =
        sent w @ [\<lparr>rec_topic = str_replace ''::'' ''-'' (ev_topic ev),
                   rec_value = encode_utf8 (json_dumps (JObj (dict_set ''wallet_id''
                                 (opt_json (settings prof ''wallet.id'')) d))),
                   rec_key = None\<rparr>]
    \<and> dict_get (dict_set ''wallet_id'' (opt_json (settings prof ''wallet.id'')) d) ''wallet_id''
        = Some (case settings prof ''wallet.id'' of None \<Rightarrow> JNull | Some v \<Rightarrow> v)"
  using assms
  by (simp add: handle_event_def log_msg_def send_and_wait_def Let_def dict_get_dict_set
      opt_json_def)

text \<open>
  The event \<open>acapy::record::present_proof::presentation_received\<close> with the payload
  \<open>{"state": "active"}\<close> and no \<open>wallet.id\<close> setting goes to the topic
  \<open>acapy-record-present_proof-presentation_received\<close>.
\<close>

theorem C4_handle_event_publishes_witness:
  \<open>fst (handle_event example_profile
          \<lparr>ev_topic = ''acapy::record::present_proof::presentation_received'', ev_payload = 0\<rparr>
          example_world) = Inr ()
   \<and> sent (snd (handle_event example_profile
          \<lparr>ev_topic = ''acapy::record::present_proof::presentation_received'', ev_payload = 0\<rparr>
          example_world)) =
       [\<lparr>rec_topic = ''acapy-record-present_proof-presentation_received'',
         rec_value = ''{"state": "active", "wallet_id": null}'',
         rec_key = None\<rparr>]\<close>
proof -
  have b: "producer_bound example_profile"
    by (simp add: example_profile_def)
  have h: "heap example_world
             (ev_payload \<lparr>ev_topic = ''acapy::record::present_proof::presentation_received'',
                          ev_payload = 0\<rparr>)
           = JObj [(''state'', JStr ''active'')]"
    by (simp add: example_world_def example_heap_def)
  have k: "broker example_world r = None" for r
    by (simp add: example_world_def accepting_broker_def)
  have v: \<open>encode_utf8 (json_dumps (JObj (dict_set ''wallet_id''
             (opt_json (settings example_profile ''wallet.id'')) [(''state'', JStr ''active'')])))
           = ''{"state": "active", "wallet_id": null}''\<close>
    by code_simp
  show ?thesis
    using C4_handle_event_publishes [OF b h k] unfolding v
    by (simp add: example_world_def)
qed

section \<open>The steps of the two handlers\<close>

text \<open>
  What \<open>send_and_wait\<close>, the log and the body of a \<open>try\<close> change in the world, and
  the handlers once the statements before the \<open>try\<close> have passed.
\<close>

lemma send_and_wait_ack:
  "broker w r = None \<Longrightarrow>
   send_and_wait r w = (Inr (), w\<lparr>attempted := attempted w @ [r], sent := sent w @ [r]\<rparr>)"
  by (simp add: send_and_wait_def)

lemma send_and_wait_refused:
  "broker w r = Some e \<Longrightarrow> send_and_wait r w = (Inl e, w\<lparr>attempted := attempted w @ [r]\<rparr>)"
  by (simp add: send_and_wait_def)

lemma send_and_wait_frame:
  "heap (snd (send_and_wait r w)) = heap w
   \<and> logged (snd (send_and_wait r w)) = logged w
   \<and> attempted (snd (send_and_wait r w)) = attempted w @ [r]
   \<and> (fst (send_and_wait r w) \<noteq> Inr () \<longrightarrow> sent (snd (send_and_wait r w)) = sent w)"
  by (cases "broker w r") (simp_all add: send_and_wait_def)

lemma log_msg_frame:
  "heap (log_msg l m e w) = heap w \<and> attempted (log_msg l m e w) = attempted w
   \<and> sent (log_msg l m e w) = sent w \<and> broker (log_msg l m e w) = broker w
   \<and> producer_start (log_msg l m e w) = producer_start w
   \<and> logged (log_msg l m e w) = logged w @ [Log l m e]"
  by (simp add: log_msg_def)

lemma swallow_fst:
  "fst (case p of (Inl exc, w2) \<Rightarrow> (Inr (), log_msg l m (Some exc) w2)
               | (Inr u, w2) \<Rightarrow> (Inr (), w2)) = Inr ()"
  by (cases p; cases "fst p") auto

lemma swallow_snd:
  "snd (case p of (Inl exc, w2) \<Rightarrow> (Inr (), log_msg l m (Some exc) w2)
               | (Inr u, w2) \<Rightarrow> (Inr (), w2))
   = (case fst p of Inl exc \<Rightarrow> log_msg l m (Some exc) (snd p) | Inr u \<Rightarrow> snd p)"
  by (cases p; cases "fst p") auto

lemma handle_event_dict:
  "producer_bound prof \<Longrightarrow> heap w (ev_payload ev) = JObj d \<Longrightarrow>
   handle_event prof ev w =
     (case send_and_wait
             \<lparr>rec_topic = str_replace ''::'' ''-'' (ev_topic ev),
              rec_value = encode_utf8 (json_dumps (JObj (dict_set ''wallet_id''
                            (opt_json (settings prof ''wallet.id'')) d))),
              rec_key = None\<rparr>
             (log_msg INFO ''Sending message {payload} with Kafka topic {topic}'' None
               ((log_msg INFO ''Handling Kafka producer event: %s'' None w)
                 \<lparr>heap := (heap w)(ev_payload ev := JObj (dict_set ''wallet_id''
                            (opt_json (settings prof ''wallet.id'')) d))\<rparr>)) of
        (Inl exc, w4) \<Rightarrow>
          (Inr (), log_msg ERROR ''Kafka producer failed sending a message due to: {exc}''
                     (Some exc) w4)
      | (Inr u, w4) \<Rightarrow> (Inr (), w4))"
  by (simp add: handle_event_def log_msg_def Let_def)

lemma events_publish_frame:
  "heap (snd (events_publish c p wid pl w)) = heap w
   \<and> length (attempted (snd (events_publish c p wid pl w))) \<le> Suc (length (attempted w))
   \<and> (fst (events_publish c p wid pl w) \<noteq> Inr () \<longrightarrow> sent (snd (events_publish c p wid pl w)) = sent w)"
  using send_and_wait_frame
  by (simp add: events_publish_def log_msg_def Let_def split: option.splits sum.splits)

lemma events_publish_miss:
  "map_of (topic_maps c) p = None \<Longrightarrow> events_publish c p wid pl w = (Inl (KeyError p), w)"
  by (simp add: events_publish_def)

lemma events_publish_unresolved:
  "map_of (topic_maps c) p = Some t \<Longrightarrow> substitute pl t = Inl e \<Longrightarrow>
   events_publish c p wid pl w = (Inl e, w)"
  by (simp add: events_publish_def)

lemma events_publish_sends:
  "map_of (topic_maps c) p = Some t \<Longrightarrow> substitute pl t = Inr kt \<Longrightarrow>
   producer_start w (producer_opts c) = None \<Longrightarrow> wallet_key wid = Inr k \<Longrightarrow>
   events_publish c p wid pl w =
     send_and_wait \<lparr>rec_topic = kt, rec_value = encode_utf8 (json_dumps (JObj pl)), rec_key = k\<rparr>
       (log_msg INFO ''Sending message {payload} with Kafka topic {kafka_topic}'' None w)"
  by (simp add: events_publish_def log_msg_def)

lemma events_handle_event_dict:
  "heap w (ev_payload ev) = JObj d \<Longrightarrow>
   events_handle_event prof ev w =
     (case events_publish (events_or_default prof) (ev_pattern ev)
             (opt_json (settings prof ''wallet.id''))
             (event_payload (opt_json (settings prof ''wallet.id'')) (ev_topic ev) d)
             (log_msg INFO ''Handling Kafka producer event: %s'' None w) of
        (Inl exc, w2) \<Rightarrow>
          (Inr (), log_msg ERROR ''Kafka producer failed to send message'' (Some exc) w2)
      | (Inr u, w2) \<Rightarrow> (Inr (), w2))"
  by (simp add: events_handle_event_def log_msg_def Let_def)

section \<open>The fixed-pattern bridge: inbound records\<close>

text \<open>
  C5 does not hold of the code. The loop translates the topic and parses the
  value as the claim says, but it hands them to \<open>bus.notify\<close> in the places of
  the profile and the event. Whatever the first record is, the loop ends in an
  error at that record, the \<open>AttributeError\<close> of \<open>bus.notify\<close> when the value
  parses, and no event reaches the bus.
\<close>

theorem C5_consume_ends_at_first_record:
  "fst (consume (msg # msgs) w) =
     (case json_loads_bytes (rec_value msg) of Inl e \<Rightarrow> Inl e | Inr v \<Rightarrow> Inl AttributeError)
   \<and> notified (snd (consume (msg # msgs) w)) = notified w"
  by (simp add: notify_def split: sum.splits)

text \<open>
  Two records, from \<open>acapy-inbound-message\<close> and \<open>acapy-inbound-ping\<close>, both with
  JSON values: the loop ends at the first, and the bus has taken nothing.
\<close>

theorem C5_consume_ends_at_first_record_witness:
  "fst (consume inbound_records example_world) = Inl AttributeError
   \<and> notified (snd (consume inbound_records example_world)) = []"
proof -
  have e: "hd inbound_records # tl inbound_records = inbound_records"
    by (simp add: inbound_records_def)
  have v: "json_loads_bytes (rec_value (hd inbound_records)) = Inr (JObj [(''n'', JInt 1)])"
    by code_simp
  have n: "notified example_world = []"
    by (simp add: example_world_def)
  show ?thesis
    using C5_consume_ends_at_first_record
      [of "hd inbound_records" "tl inbound_records" example_world]
    unfolding e v n by simp
qed

text \<open>A record whose value does not parse ends the loop with the parser's error.\<close>

lemma consume_stops_at_unparsed_record:
  "json_loads_bytes (rec_value m) = Inl e \<Longrightarrow> consume (m # msgs) w = (Inl e, w)"
  by simp

section \<open>The configurable bridge\<close>

lemma derive_category_connections:
  "derive_category ''acapy::record::connections::active'' = Some ''connections''"
  by (simp add: derive_category_def RECORD_RE_group1_def)

lemma render_category_state:
  "dict_get pl ''category'' = Some c \<Longrightarrow> dict_get pl ''state'' = Some s \<Longrightarrow>
   substitute pl ''${category}-${state}'' = Inr (py_str c @ ''-'' @ py_str s)"
  by (simp add: is_id_start_def is_id_char_def is_digit_def)

text \<open>
  C6. When the payload is a \<open>dict\<close>, the topic map has a template for the matched
  pattern, the template renders, the producer starts and the broker acknowledges:
  with no \<open>wallet.id\<close> setting the published object has \<open>wallet_id\<close> \<open>"base"\<close> and
  the record has no key; with a non-empty string as \<open>wallet.id\<close>, \<open>wallet_id\<close> is
  that string and the key is its UTF-8 encoding.
\<close>

theorem C6_wallet_id_default_and_key:
  assumes "heap w (ev_payload ev) = JObj d"
    and "map_of (topic_maps (events_or_default prof)) (ev_pattern ev) = Some template"
    and "substitute (event_payload (opt_json (settings prof ''wallet.id'')) (ev_topic ev) d) template
           = Inr kafka_topic"
    and "producer_start w (producer_opts (events_or_default prof)) = None"
    and "\<forall>r. broker w r = None"
  shows "(settings prof ''wallet.id'' = None \<longrightarrow>
            sent (snd (events_handle_event prof ev w)) =
              sent w @ [\<lparr>rec_topic = kafka_topic,
                         rec_value = encode_utf8 (json_dumps (JObj
                                       (event_payload JNull (ev_topic ev) d))),
                         rec_key = None\<rparr>]
            \<and> dict_get (event_payload JNull (ev_topic ev) d) ''wallet_id'' = Some (JStr ''base''))
       \<and> (\<forall>s. settings prof ''wallet.id'' = Some (JStr s) \<and> s \<noteq> [] \<longrightarrow>
            sent (snd (events_handle_event prof ev w)) =
              sent w @ [\<lparr>rec_topic = kafka_topic,
                         rec_value = encode_utf8 (json_dumps (JObj
                                       (event_payload (JStr s) (ev_topic ev) d))),
                         rec_key = Some (encode_utf8 s)\<rparr>]
            \<and> dict_get (event_payload (JStr s) (ev_topic ev) d) ''wallet_id'' = Some (JStr s))"
proof -
  have sends: "sent (snd (events_handle_event prof ev w)) =
      sent w @ [\<lparr>rec_topic = kafka_topic,
                 rec_value = encode_utf8 (json_dumps (JObj
                               (event_payload (opt_json (settings prof ''wallet.id'')) (ev_topic ev) d))),
                 rec_key = k\<rparr>]"
    if "wallet_key (opt_json (settings prof ''wallet.id'')) = Inr k" for k
    using assms(5)
    by (simp add: events_handle_event_dict [OF assms(1)]
        events_publish_sends [OF assms(2) assms(3) _ that] assms(4) log_msg_frame
        send_and_wait_ack swallow_snd)
  have absent: "wallet_key (opt_json None) = Inr None"
    by (simp add: wallet_key_def opt_json_def)
  have present: "wallet_key (opt_json (Some (JStr s))) = Inr (Some (encode_utf8 s))" if "s \<noteq> []" for s
    using that by (simp add: wallet_key_def opt_json_def)
  show ?thesis
    using sends absent present
    by (auto simp add: event_payload_def opt_json_def)
qed

text \<open>The same event published without a wallet id, and with the wallet id \<open>alice\<close>.\<close>

theorem C6_witness:
  \<open>sent (snd (events_handle_event connections_profile (connections_event 0) example_world)) =
     [\<lparr>rec_topic = ''connections-active'',
       rec_value = ''{"wallet_id": "base", "state": "active", "topic": "acapy::record::connections::active", "category": "connections", "payload": {"state": "active"}}'',
       rec_key = None\<rparr>]
   \<and> sent (snd (events_handle_event (connections_profile\<lparr>settings := base_settings\<rparr>)
                  (connections_event 0) example_world)) =
     [\<lparr>rec_topic = ''connections-active'',
       rec_value = ''{"wallet_id": "alice", "state": "active", "topic": "acapy::record::connections::active", "category": "connections", "payload": {"state": "active"}}'',
       rec_key = Some ''alice''\<rparr>]\<close>
proof -
  have 1: "heap example_world (ev_payload (connections_event 0)) = JObj [(''state'', JStr ''active'')]"
    by (simp add: connections_event_def example_world_def example_heap_def)
  have 2: "map_of (topic_maps (events_or_default (connections_profile\<lparr>settings := s\<rparr>)))
             (ev_pattern (connections_event 0)) = Some ''${category}-${state}''" for s
    by (simp add: events_or_default_def get_config_def connections_profile_def connections_event_def)
  have 3: "substitute (event_payload (opt_json (settings (connections_profile\<lparr>settings := s\<rparr>) ''wallet.id''))
             (ev_topic (connections_event 0)) [(''state'', JStr ''active'')]) ''${category}-${state}''
           = Inr ''connections-active''" for s
    using render_category_state [of "event_payload (opt_json (s ''wallet.id''))
             (ev_topic (connections_event 0)) [(''state'', JStr ''active'')]"
        "JStr ''connections''" "JStr ''active''"]
    by (simp add: event_payload_def connections_event_def derive_category_connections opt_json_def py_str_def)
  have 4: "producer_start example_world (producer_opts (events_or_default (connections_profile\<lparr>settings := s\<rparr>))) = None" for s
    by (simp add: example_world_def starting_producer_def)
  have 5: "\<forall>r. broker example_world r = None"
    by (simp add: example_world_def accepting_broker_def)
  have a: "settings (connections_profile\<lparr>settings := no_settings\<rparr>) ''wallet.id'' = None"
    by (simp add: no_settings_def)
  have p: "settings (connections_profile\<lparr>settings := base_settings\<rparr>) ''wallet.id'' = Some (JStr ''alice'')"
    by (simp add: base_settings_def)
  have same: "connections_profile\<lparr>settings := no_settings\<rparr> = connections_profile"
    by (simp add: connections_profile_def)
  have v1: \<open>encode_utf8 (json_dumps (JObj (event_payload JNull (ev_topic (connections_event 0)) [(''state'', JStr ''active'')])))
     = ''{"wallet_id": "base", "state": "active", "topic": "acapy::record::connections::active", "category": "connections", "payload": {"state": "active"}}''\<close>
    by code_simp
  have v2: \<open>encode_utf8 (json_dumps (JObj (event_payload (JStr ''alice'') (ev_topic (connections_event 0)) [(''state'', JStr ''active'')])))
     = ''{"wallet_id": "alice", "state": "active", "topic": "acapy::record::connections::active", "category": "connections", "payload": {"state": "active"}}''\<close>
    by code_simp
  have k: "encode_utf8 ''alice'' = ''alice''"
    by code_simp
  from C6_wallet_id_default_and_key [OF 1 2 3 4 5, of no_settings] a same
  have first: \<open>sent (snd (events_handle_event connections_profile (connections_event 0) example_world)) =
     [\<lparr>rec_topic = ''connections-active'',
       rec_value = ''{"wallet_id": "base", "state": "active", "topic": "acapy::record::connections::active", "category": "connections", "payload": {"state": "active"}}'',
       rec_key = None\<rparr>]\<close>
    unfolding v1 by (simp add: example_world_def)
  have second: \<open>sent (snd (events_handle_event (connections_profile\<lparr>settings := base_settings\<rparr>)
                  (connections_event 0) example_world)) =
     [\<lparr>rec_topic = ''connections-active'',
       rec_value = ''{"wallet_id": "alice", "state": "active", "topic": "acapy::record::connections::active", "category": "connections", "payload": {"state": "active"}}'',
       rec_key = Some ''alice''\<rparr>]\<close>
  proof -
    have n: "''alice'' \<noteq> []"
      by simp
    from C6_wallet_id_default_and_key [OF 1 2 3 4 5, of base_settings] p n
    have "sent (snd (events_handle_event (connections_profile\<lparr>settings := base_settings\<rparr>)
                  (connections_event 0) example_world)) =
            sent example_world @
              [\<lparr>rec_topic = ''connections-active'',
                rec_value = encode_utf8 (json_dumps (JObj
                              (event_payload (JStr ''alice'') (ev_topic (connections_event 0))
                                 [(''state'', JStr ''active'')]))),
                rec_key = Some (encode_utf8 ''alice'')\<rparr>]"
      by blast
    then show ?thesis
      unfolding v2 k by (simp add: example_world_def)
  qed
  from first second show ?thesis by blast
qed

text \<open>
  C7, as stated, fails: the state of the rendered topic is \<open>event.payload.get("state")\<close>,
  not the last part of the event topic. An event with the topic
  \<open>acapy::record::connections::active\<close> whose payload has no \<open>state\<close> is published to
  \<open>connections-None\<close>.
\<close>

theorem C7_counterexample:
  "ev_topic (connections_event 1) = ''acapy::record::connections::active''
   \<and> map_of (topic_maps (events_or_default connections_profile)) (ev_pattern (connections_event 1))
       = Some ''${category}-${state}''
   \<and> map rec_topic (sent (snd (events_handle_event connections_profile (connections_event 1)
                                 example_world)))
       = [''connections-None'']"
  by code_simp

text \<open>
  C7, amended. For an event with the topic \<open>acapy::record::connections::active\<close>
  whose payload has the \<open>state\<close> \<open>"active"\<close>, and a topic map that gives the matched
  pattern the template \<open>${category}-${state}\<close>: the category is \<open>connections\<close>, the
  template renders to \<open>connections-active\<close>, and, when the producer starts and the
  key can be computed, that is the topic of the record handed to the broker.
\<close>

theorem C7_render:
  assumes "ev_topic ev = ''acapy::record::connections::active''"
    and "heap w (ev_payload ev) = JObj d"
    and "dict_get d ''state'' = Some (JStr ''active'')"
    and "map_of (topic_maps (events_or_default prof)) (ev_pattern ev) = Some ''${category}-${state}''"
    and "producer_start w (producer_opts (events_or_default prof)) = None"
    and "wallet_key (opt_json (settings prof ''wallet.id'')) = Inr k"
  shows "derive_category (ev_topic ev) = Some ''connections''
     \<and> substitute (event_payload (opt_json (settings prof ''wallet.id'')) (ev_topic ev) d)
          ''${category}-${state}'' = Inr ''connections-active''
     \<and> map rec_topic (attempted (snd (events_handle_event prof ev w)))
          = map rec_topic (attempted w) @ [''connections-active'']"
proof -
  have c: "derive_category (ev_topic ev) = Some ''connections''"
    by (simp add: assms(1) derive_category_connections)
  have r: "substitute (event_payload (opt_json (settings prof ''wallet.id'')) (ev_topic ev) d)
          ''${category}-${state}'' = Inr ''connections-active''"
    using render_category_state [of "event_payload (opt_json (settings prof ''wallet.id'')) (ev_topic ev) d"
        "JStr ''connections''" "JStr ''active''"]
    by (simp add: event_payload_def assms(1) assms(3) derive_category_connections opt_json_def
        py_str_def)
  have s: "producer_start (log_msg INFO ''Handling Kafka producer event: %s'' None w)
             (producer_opts (events_or_default prof)) = None"
    by (simp add: log_msg_frame assms(5))
  have p: "events_publish (events_or_default prof) (ev_pattern ev)
             (opt_json (settings prof ''wallet.id''))
             (event_payload (opt_json (settings prof ''wallet.id'')) (ev_topic ev) d)
             (log_msg INFO ''Handling Kafka producer event: %s'' None w)
           = send_and_wait
               \<lparr>rec_topic = ''connections-active'',
                rec_value = encode_utf8 (json_dumps (JObj
                  (event_payload (opt_json (settings prof ''wallet.id'')) (ev_topic ev) d))),
                rec_key = k\<rparr>
               (log_msg INFO ''Sending message {payload} with Kafka topic {kafka_topic}'' None
                 (log_msg INFO ''Handling Kafka producer event: %s'' None w))"
    by (rule events_publish_sends [OF assms(4) r s assms(6)])
  have a: "map rec_topic (attempted (snd (events_handle_event prof ev w)))
          = map rec_topic (attempted w) @ [''connections-active'']"
    unfolding events_handle_event_dict [OF assms(2)] p swallow_snd
    by (simp add: send_and_wait_frame log_msg_frame split: sum.splits)
  from c r a show ?thesis by blast
qed

theorem C7_witness:
  "derive_category (ev_topic (connections_event 0)) = Some ''connections''
   \<and> map rec_topic (attempted (snd (events_handle_event connections_profile (connections_event 0)
                                      example_world)))
       = [''connections-active'']"
proof -
  have 1: "ev_topic (connections_event 0) = ''acapy::record::connections::active''"
    by (simp add: connections_event_def)
  have 2: "heap example_world (ev_payload (connections_event 0)) = JObj [(''state'', JStr ''active'')]"
    by (simp add: connections_event_def example_world_def example_heap_def)
  have 3: "dict_get [(''state'', JStr ''active'')] ''state'' = Some (JStr ''active'')"
    by simp
  have 4: "map_of (topic_maps (events_or_default connections_profile)) (ev_pattern (connections_event 0))
             = Some ''${category}-${state}''"
    by (simp add: events_or_default_def get_config_def connections_profile_def connections_event_def)
  have 5: "producer_start example_world (producer_opts (events_or_default connections_profile)) = None"
    by (simp add: example_world_def starting_producer_def)
  have 6: "wallet_key (opt_json (settings connections_profile ''wallet.id'')) = Inr None"
    by (simp add: wallet_key_def opt_json_def connections_profile_def no_settings_def)
  show ?thesis
    using C7_render [OF 1 2 3 4 5 6] by (simp add: example_world_def)
qed

section \<open>Both bridges: errors and the payload object\<close>

text \<open>
  C8. Once the statements before the \<open>try\<close> have passed (the producer is bound
  and the payload is a \<open>dict\<close>), each handler returns normally whatever happens
  in the \<open>try\<close>, and hands at most one record to the broker (the fixed-pattern
  bridge exactly one). When the broker refuses the record of the fixed-pattern
  bridge, nothing is published and the error is the last thing logged. When the
  \<open>try\<close> of the configurable bridge fails, for whatever reason (topic map, template,
  producer, key, broker), nothing is published and the error is the last thing
  logged; when the topic map has no entry for the matched pattern, no record is
  handed to the broker at all.
\<close>

theorem C8_swallow:
  "(producer_bound prof \<and> heap w (ev_payload ev) = JObj d \<longrightarrow>
      fst (handle_event prof ev w) = Inr ()
      \<and> length (attempted (snd (handle_event prof ev w))) = Suc (length (attempted w))
      \<and> (\<forall>e. broker w \<lparr>rec_topic = str_replace ''::'' ''-'' (ev_topic ev),
                         rec_value = encode_utf8 (json_dumps (JObj (dict_set ''wallet_id''
                                       (opt_json (settings prof ''wallet.id'')) d))),
                         rec_key = None\<rparr> = Some e \<longrightarrow>
            sent (snd (handle_event prof ev w)) = sent w
            \<and> last (logged (snd (handle_event prof ev w))) =
                Log ERROR ''Kafka producer failed sending a message due to: {exc}'' (Some e)))
   \<and> (heap w (ev_payload ev') = JObj d' \<longrightarrow>
      fst (events_handle_event prof' ev' w) = Inr ()
      \<and> length (attempted (snd (events_handle_event prof' ev' w))) \<le> Suc (length (attempted w))
      \<and> (\<forall>e. fst (events_publish (events_or_default prof') (ev_pattern ev')
                     (opt_json (settings prof' ''wallet.id''))
                     (event_payload (opt_json (settings prof' ''wallet.id'')) (ev_topic ev') d')
                     (log_msg INFO ''Handling Kafka producer event: %s'' None w)) = Inl e \<longrightarrow>
            sent (snd (events_handle_event prof' ev' w)) = sent w
            \<and> last (logged (snd (events_handle_event prof' ev' w))) =
                Log ERROR ''Kafka producer failed to send message'' (Some e))
      \<and> (map_of (topic_maps (events_or_default prof')) (ev_pattern ev') = None \<longrightarrow>
            attempted (snd (events_handle_event prof' ev' w)) = attempted w
            \<and> sent (snd (events_handle_event prof' ev' w)) = sent w
            \<and> last (logged (snd (events_handle_event prof' ev' w))) =
                Log ERROR ''Kafka producer failed to send message''
                  (Some (KeyError (ev_pattern ev')))))"
proof -
  have fixed: "fst (handle_event prof ev w) = Inr ()
      \<and> length (attempted (snd (handle_event prof ev w))) = Suc (length (attempted w))
      \<and> (\<forall>e. broker w \<lparr>rec_topic = str_replace ''::'' ''-'' (ev_topic ev),
                         rec_value = encode_utf8 (json_dumps (JObj (dict_set ''wallet_id''
                                       (opt_json (settings prof ''wallet.id'')) d))),
                         rec_key = None\<rparr> = Some e \<longrightarrow>
            sent (snd (handle_event prof ev w)) = sent w
            \<and> last (logged (snd (handle_event prof ev w))) =
                Log ERROR ''Kafka producer failed sending a message due to: {exc}'' (Some e))"
    if "producer_bound prof" and "heap w (ev_payload ev) = JObj d"
    unfolding handle_event_dict [OF that]
    by (simp add: swallow_fst swallow_snd send_and_wait_frame log_msg_frame
              send_and_wait_refused split: sum.splits)
  have conf: "fst (events_handle_event prof' ev' w) = Inr ()
      \<and> length (attempted (snd (events_handle_event prof' ev' w))) \<le> Suc (length (attempted w))
      \<and> (\<forall>e. fst (events_publish (events_or_default prof') (ev_pattern ev')
                     (opt_json (settings prof' ''wallet.id''))
                     (event_payload (opt_json (settings prof' ''wallet.id'')) (ev_topic ev') d')
                     (log_msg INFO ''Handling Kafka producer event: %s'' None w)) = Inl e \<longrightarrow>
            sent (snd (events_handle_event prof' ev' w)) = sent w
            \<and> last (logged (snd (events_handle_event prof' ev' w))) =
                Log ERROR ''Kafka producer failed to send message'' (Some e))
      \<and> (map_of (topic_maps (events_or_default prof')) (ev_pattern ev') = None \<longrightarrow>
            attempted (snd (events_handle_event prof' ev' w)) = attempted w
            \<and> sent (snd (events_handle_event prof' ev' w)) = sent w
            \<and> last (logged (snd (events_handle_event prof' ev' w))) =
                Log ERROR ''Kafka producer failed to send message''
                  (Some (KeyError (ev_pattern ev'))))"
    if h: "heap w (ev_payload ev') = JObj d'"
  proof -
    let ?p = "events_publish (events_or_default prof') (ev_pattern ev')
                     (opt_json (settings prof' ''wallet.id''))
                     (event_payload (opt_json (settings prof' ''wallet.id'')) (ev_topic ev') d')
                     (log_msg INFO ''Handling Kafka producer event: %s'' None w)"
    have fr: "length (attempted (snd ?p)) \<le> Suc (length (attempted w))"
      "fst ?p \<noteq> Inr () \<longrightarrow> sent (snd ?p) = sent w"
      using events_publish_frame [of "events_or_default prof'" "ev_pattern ev'"
          "opt_json (settings prof' ''wallet.id'')"
          "event_payload (opt_json (settings prof' ''wallet.id'')) (ev_topic ev') d'"
          "log_msg INFO ''Handling Kafka producer event: %s'' None w"]
      by (simp_all add: log_msg_frame)
    have a: "fst (events_handle_event prof' ev' w) = Inr ()"
      by (simp add: events_handle_event_dict [OF h] swallow_fst)
    have b: "length (attempted (snd (events_handle_event prof' ev' w))) \<le> Suc (length (attempted w))"
      using fr(1) by (simp add: events_handle_event_dict [OF h] swallow_snd log_msg_frame split: sum.splits)
    have c: "sent (snd (events_handle_event prof' ev' w)) = sent w
            \<and> last (logged (snd (events_handle_event prof' ev' w))) =
                Log ERROR ''Kafka producer failed to send message'' (Some e)"
      if "fst ?p = Inl e" for e
      using fr(2) that by (simp add: events_handle_event_dict [OF h] swallow_snd log_msg_frame)
    have d: "attempted (snd (events_handle_event prof' ev' w)) = attempted w
            \<and> sent (snd (events_handle_event prof' ev' w)) = sent w
            \<and> last (logged (snd (events_handle_event prof' ev' w))) =
                Log ERROR ''Kafka producer failed to send message''
                  (Some (KeyError (ev_pattern ev')))"
      if "map_of (topic_maps (events_or_default prof')) (ev_pattern ev') = None"
      by (simp add: events_handle_event_dict [OF h] swallow_snd log_msg_frame
          events_publish_miss [OF that])
    from a b c d show ?thesis by blast
  qed
  from fixed conf show ?thesis by blast
qed

text \<open>
  A refusing broker under the fixed-pattern bridge, and a profile without a topic
  map under the configurable bridge.
\<close>

theorem C8_witness:
  "fst (handle_event example_profile
          \<lparr>ev_topic = ''acapy::record::connections::active'', ev_payload = 0\<rparr> refusing_world)
     = Inr ()
   \<and> sent (snd (handle_event example_profile
          \<lparr>ev_topic = ''acapy::record::connections::active'', ev_payload = 0\<rparr> refusing_world))
     = []
   \<and> last (logged (snd (handle_event example_profile
          \<lparr>ev_topic = ''acapy::record::connections::active'', ev_payload = 0\<rparr> refusing_world)))
     = Log ERROR ''Kafka producer failed sending a message due to: {exc}''
         (Some (KafkaError ''broker unavailable''))
   \<and> fst (events_handle_event example_profile (connections_event 0) refusing_world) = Inr ()
   \<and> attempted (snd (events_handle_event example_profile (connections_event 0) refusing_world))
     = []
   \<and> last (logged (snd (events_handle_event example_profile (connections_event 0) refusing_world)))
     = Log ERROR ''Kafka producer failed to send message''
         (Some (KeyError ''acapy::record::connections::active''))"
proof -
  have b: "producer_bound example_profile"
    by (simp add: example_profile_def)
  have h: "heap refusing_world
             (ev_payload \<lparr>ev_topic = ''acapy::record::connections::active'', ev_payload = 0\<rparr>)
           = JObj [(''state'', JStr ''active'')]"
    by (simp add: refusing_world_def example_world_def example_heap_def)
  have h': "heap refusing_world (ev_payload (connections_event 0)) = JObj [(''state'', JStr ''active'')]"
    by (simp add: refusing_world_def example_world_def example_heap_def connections_event_def)
  have r: "broker refusing_world x = Some (KafkaError ''broker unavailable'')" for x
    by (simp add: refusing_world_def refusing_broker_def)
  have m: "map_of (topic_maps (events_or_default example_profile)) (ev_pattern (connections_event 0)) = None"
    by (simp add: events_or_default_def get_config_def example_profile_def EventsConfig_default_def)
  have e: "attempted refusing_world = [] \<and> sent refusing_world = []"
    by (simp add: refusing_world_def example_world_def)
  note c8 = C8_swallow [of example_profile refusing_world
        "\<lparr>ev_topic = ''acapy::record::connections::active'', ev_payload = 0\<rparr>"
        "[(''state'', JStr ''active'')]" "connections_event 0" "[(''state'', JStr ''active'')]"
        example_profile]
  from c8 b h have fixed:
    "fst (handle_event example_profile
          \<lparr>ev_topic = ''acapy::record::connections::active'', ev_payload = 0\<rparr> refusing_world)
       = Inr ()
     \<and> (\<forall>e. broker refusing_world
               \<lparr>rec_topic = str_replace ''::'' ''-''
                              (ev_topic \<lparr>ev_topic = ''acapy::record::connections::active'',
                                         ev_payload = 0\<rparr>),
                rec_value = encode_utf8 (json_dumps (JObj (dict_set ''wallet_id''
                              (opt_json (settings example_profile ''wallet.id''))
                              [(''state'', JStr ''active'')]))),
                rec_key = None\<rparr> = Some e \<longrightarrow>
            sent (snd (handle_event example_profile
                \<lparr>ev_topic = ''acapy::record::connections::active'', ev_payload = 0\<rparr>
                refusing_world)) = sent refusing_world
            \<and> last (logged (snd (handle_event example_profile
                \<lparr>ev_topic = ''acapy::record::connections::active'', ev_payload = 0\<rparr>
                refusing_world))) =
                Log ERROR ''Kafka producer failed sending a message due to: {exc}'' (Some e))"
    by blast
  from c8 h' m have conf:
    "fst (events_handle_event example_profile (connections_event 0) refusing_world) = Inr ()
     \<and> attempted (snd (events_handle_event example_profile (connections_event 0) refusing_world))
         = attempted refusing_world
     \<and> last (logged (snd (events_handle_event example_profile (connections_event 0)
                             refusing_world)))
         = Log ERROR ''Kafka producer failed to send message''
             (Some (KeyError (ev_pattern (connections_event 0))))"
    by blast
  have pat: "ev_pattern (connections_event 0) = ''acapy::record::connections::active''"
    by (simp add: connections_event_def)
  from fixed r e conf show ?thesis
    unfolding pat by metis
qed

text \<open>
  C10. The fixed-pattern bridge writes \<open>wallet_id\<close> into the object the event's
  payload refers to, so that every holder of that reference reads the new field
  afterwards; the configurable bridge leaves the whole heap as it was.
\<close>

theorem C10_mutation:
  "(producer_bound prof \<and> heap w (ev_payload ev) = JObj d \<longrightarrow>
      heap (snd (handle_event prof ev w)) =
        (heap w)(ev_payload ev := JObj (dict_set ''wallet_id''
                                         (opt_json (settings prof ''wallet.id'')) d)))
   \<and> heap (snd (events_handle_event prof' ev' w)) = heap w"
proof -
  have fixed: "heap (snd (handle_event prof ev w)) =
        (heap w)(ev_payload ev := JObj (dict_set ''wallet_id''
                                         (opt_json (settings prof ''wallet.id'')) d))"
    if "producer_bound prof" and "heap w (ev_payload ev) = JObj d"
    by (simp add: handle_event_dict [OF that] swallow_snd send_and_wait_frame log_msg_frame
        split: sum.splits)
  have conf: "heap (snd (events_handle_event prof' ev' w)) = heap w"
  proof (cases "heap w (ev_payload ev')")
    case (JObj d')
    show ?thesis
      by (simp add: events_handle_event_dict [OF JObj] swallow_snd events_publish_frame
          log_msg_frame split: sum.splits)
  qed (simp_all add: events_handle_event_def log_msg_def Let_def)
  from fixed conf show ?thesis by blast
qed

theorem C10_witness:
  "heap (snd (handle_event example_profile
                \<lparr>ev_topic = ''acapy::record::connections::active'', ev_payload = 0\<rparr>
                example_world)) 0
     = JObj [(''state'', JStr ''active''), (''wallet_id'', JNull)]
   \<and> heap (snd (events_handle_event connections_profile (connections_event 0) example_world)) 0
     = JObj [(''state'', JStr ''active'')]"
proof -
  have b: "producer_bound example_profile"
    by (simp add: example_profile_def)
  have h: "heap example_world
             (ev_payload \<lparr>ev_topic = ''acapy::record::connections::active'', ev_payload = 0\<rparr>)
           = JObj [(''state'', JStr ''active'')]"
    by (simp add: example_world_def example_heap_def)
  show ?thesis
    using C10_mutation [of example_profile example_world
        "\<lparr>ev_topic = ''acapy::record::connections::active'', ev_payload = 0\<rparr>"
        "[(''state'', JStr ''active'')]" connections_profile "connections_event 0"] b h
    by (simp add: example_world_def example_heap_def example_profile_def no_settings_def opt_json_def)
qed

section \<open>The HTTP relay\<close>

lemma strs_of_JStr: "strs_of (map JStr ks) = Inr ks"
  by (induction ks) auto



lemma recipients_chain:
  assumes "json_loads_bytes message = Inr wrapper"
    and "subscript wrapper ''protected'' = Inr prot"
    and "b64_to_bytes prot True = Inr raw"
    and "decode_ascii raw = Inr recips_json"
    and "json_loads recips_json = Inr recips_outer"
    and "subscript recips_outer ''recipients'' = Inr rs"
  shows "recipients_from_packed_message message =
           (case py_iter rs of Inl e \<Rightarrow> Inl e | Inr xs \<Rightarrow> header_kids xs)"
  using assms by (simp add: recipients_from_packed_message_def)

lemma receive_message_key:
  assumes "recipients_from_packed_message message = Inr (map JStr kids)"
  shows "receive_message env message w =
     (case encode_utf8 (str_join '','' kids) of
        [] \<Rightarrow> (Inl IndexError, log_msg DEBUG ''Received message, pushing to Kafka: %s'' None w)
      | b0 # bs \<Rightarrow>
          (case send_and_wait
                  \<lparr>rec_topic = INBOUND_TOPIC env, rec_value = message,
                   rec_key = Some (encode_utf8 (str_join '','' kids))\<rparr>
                  (log_msg INFO ''Sending Kafka event with topic, message, key'' None
                    (log_msg DEBUG ''Received message, pushing to Kafka: %s'' None w)) of
             (Inl e, w3) \<Rightarrow> (Inl e, w3)
           | (Inr u, w3) \<Rightarrow> (Inr \<lparr>status_code = 200, body = []\<rparr>, w3)))"
  using assms by (simp add: receive_message_def strs_of_JStr Let_def split: list.splits)

lemma relay_result_snd:
  "snd (case p of (Inl e, w3) \<Rightarrow> (Inl e, w3) | (Inr u, w3) \<Rightarrow> (Inr r, w3)) = snd p"
  by (cases p; cases "fst p") auto




text \<open>
  C3, as stated, fails in its error class: a body that is JSON without \<open>protected\<close>
  raises the \<open>KeyError\<close> of the subscript, which is no \<open>ValueError\<close>, while a body
  that is not JSON raises \<open>ValueError\<close>.
\<close>

theorem C3_counterexample:
  \<open>json_loads_bytes ''{}'' = Inr (JObj [])
   \<and> fst (receive_message no_env ''{}'' example_world) = Inl (KeyError ''protected'')
   \<and> \<not> is_ValueError (KeyError ''protected'')
   \<and> fst (receive_message no_env ''{'' example_world) = Inl (ValueError ''Invalid packed message'')
   \<and> is_ValueError (ValueError ''Invalid packed message'')\<close>
  by code_simp

text \<open>
  C3, amended. For every body that parses as JSON and has no \<open>protected\<close> field,
  the relay fails with the \<open>KeyError\<close> of the missing key (a JSON object) or with a
  \<open>TypeError\<close> (any other JSON value), neither of them a \<open>ValueError\<close>, and hands
  nothing to the broker.
\<close>

theorem C3_missing_protected:
  assumes "json_loads_bytes message = Inr wrapper"
    and "\<forall>d. wrapper = JObj d \<longrightarrow> dict_get d ''protected'' = None"
  shows "(fst (receive_message env message w) = Inl (KeyError ''protected'')
          \<or> fst (receive_message env message w) = Inl TypeError)
     \<and> (\<forall>e. fst (receive_message env message w) = Inl e \<longrightarrow> \<not> is_ValueError e)
     \<and> attempted (snd (receive_message env message w)) = attempted w
     \<and> sent (snd (receive_message env message w)) = sent w"
proof -
  have s: "subscript wrapper ''protected'' = Inl (KeyError ''protected'')
           \<or> subscript wrapper ''protected'' = Inl TypeError"
    using assms(2) by (cases wrapper) (simp_all add: subscript_def)
  then have r: "recipients_from_packed_message message = Inl (KeyError ''protected'')
           \<or> recipients_from_packed_message message = Inl TypeError"
    by (auto simp add: recipients_from_packed_message_def assms(1))
  then show ?thesis
    by (auto simp add: receive_message_def log_msg_frame)
qed

theorem C3_witness:
  \<open>fst (receive_message no_env ''{"unprotected": 1}'' example_world) = Inl (KeyError ''protected'')
   \<and> fst (receive_message no_env ''[]'' example_world) = Inl TypeError
   \<and> attempted (snd (receive_message no_env ''{"unprotected": 1}'' example_world)) = []
   \<and> attempted (snd (receive_message no_env ''[]'' example_world)) = []\<close>
proof -
  have 1: \<open>json_loads_bytes ''{"unprotected": 1}'' = Inr (JObj [(''unprotected'', JInt 1)])\<close>
    by code_simp
  have 2: "\<forall>d. JObj [(''unprotected'', JInt 1)] = JObj d \<longrightarrow> dict_get d ''protected'' = None"
    by simp
  have 3: \<open>json_loads_bytes ''[]'' = Inr (JList [])\<close>
    by code_simp
  have 4: "\<forall>d. JList [] = JObj d \<longrightarrow> dict_get d ''protected'' = None"
    by simp
  have a: "attempted example_world = []"
    by (simp add: example_world_def)
  have n: "Inl (KeyError ''protected'') \<noteq> (Inl TypeError :: error + response)"
    by simp
  have s1: \<open>subscript (JObj [(''unprotected'', JInt 1)]) ''protected'' = Inl (KeyError ''protected'')\<close>
    by (simp add: subscript_def)
  have r1: \<open>fst (receive_message no_env ''{"unprotected": 1}'' example_world) \<noteq> Inl TypeError\<close>
    by (simp add: receive_message_def recipients_from_packed_message_def 1 s1)
  have s2: \<open>subscript (JList []) ''protected'' = Inl TypeError\<close>
    by (simp add: subscript_def)
  have r2: \<open>fst (receive_message no_env ''[]'' example_world) \<noteq> Inl (KeyError ''protected'')\<close>
    by (simp add: receive_message_def recipients_from_packed_message_def 3 s2)
  from C3_missing_protected [OF 1 2, of no_env example_world]
       C3_missing_protected [OF 3 4, of no_env example_world] a r1 r2
  show ?thesis
    by metis
qed

text \<open>A body that \<open>json.loads\<close> refuses raises the \<open>ValueError\<close> of the first \<open>try\<close>.\<close>

lemma non_json_is_ValueError:
  assumes "json_loads_bytes message = Inl e" and "e \<noteq> Unmodelled" and "e \<noteq> OutOfFuel"
  shows "fst (receive_message env message w) = Inl (ValueError ''Invalid packed message'')"
  using assms by (simp add: receive_message_def recipients_from_packed_message_def)

text \<open>
  C9. When the \<open>recipients\<close> list is empty, the key is the empty byte string,
  \<open>recips[0]\<close> raises \<open>IndexError\<close> before the info line is logged, and nothing is
  handed to the broker.
\<close>

theorem C9_empty_recipients:
  assumes "json_loads_bytes message = Inr wrapper"
    and "subscript wrapper ''protected'' = Inr prot"
    and "b64_to_bytes prot True = Inr raw"
    and "decode_ascii raw = Inr recips_json"
    and "json_loads recips_json = Inr recips_outer"
    and "subscript recips_outer ''recipients'' = Inr (JList [])"
  shows "fst (receive_message env message w) = Inl IndexError
     \<and> attempted (snd (receive_message env message w)) = attempted w
     \<and> sent (snd (receive_message env message w)) = sent w
     \<and> logged (snd (receive_message env message w)) =
         logged w @ [Log DEBUG ''Received message, pushing to Kafka: %s'' None]"
proof -
  have r: "recipients_from_packed_message message = Inr (map JStr [])"
    by (simp add: recipients_chain [OF assms(1-6)] py_iter_def)
  show ?thesis
    unfolding receive_message_key [OF r]
    by (simp add: encode_utf8_def log_msg_frame)
qed

theorem C9_witness:
  "fst (receive_message no_env packed_no_recipients example_world) = Inl IndexError
   \<and> attempted (snd (receive_message no_env packed_no_recipients example_world)) = []
   \<and> sent (snd (receive_message no_env packed_no_recipients example_world)) = []"
proof -
  have 1: "json_loads_bytes packed_no_recipients
             = Inr (JObj [(''protected'', JStr ''eyJyZWNpcGllbnRzIjpbXX0='')])"
    by code_simp
  have 2: "subscript (JObj [(''protected'', JStr ''eyJyZWNpcGllbnRzIjpbXX0='')]) ''protected''
             = Inr (JStr ''eyJyZWNpcGllbnRzIjpbXX0='')"
    by (simp add: subscript_def)
  have 3: \<open>b64_to_bytes (JStr ''eyJyZWNpcGllbnRzIjpbXX0='') True = Inr ''{"recipients":[]}''\<close>
    by code_simp
  have 4: \<open>decode_ascii ''{"recipients":[]}'' = Inr ''{"recipients":[]}''\<close>
    by code_simp
  have 5: \<open>json_loads ''{"recipients":[]}'' = Inr (JObj [(''recipients'', JList [])])\<close>
    by code_simp
  have 6: "subscript (JObj [(''recipients'', JList [])]) ''recipients'' = Inr (JList [])"
    by (simp add: subscript_def)
  show ?thesis
    using C9_empty_recipients [OF 1 2 3 4 5 6, of no_env example_world]
    by (simp add: example_world_def)
qed

text \<open>Whatever the body, the relay hands the broker at most one record, and never one with an empty key.\<close>

lemma receive_message_never_empty_key:
  "attempted (snd (receive_message env message w)) = attempted w
   \<or> (\<exists>k. k \<noteq> [] \<and> attempted (snd (receive_message env message w)) =
         attempted w @ [\<lparr>rec_topic = INBOUND_TOPIC env, rec_value = message, rec_key = Some k\<rparr>])"
proof (cases "recipients_from_packed_message message")
  case (Inl e)
  then show ?thesis
    by (simp add: receive_message_def log_msg_frame)
next
  case (Inr ks)
  show ?thesis
  proof (cases "strs_of ks")
    case (Inl e)
    then show ?thesis
      by (simp add: receive_message_def Inr log_msg_frame)
  next
    case ss: (Inr ss)
    show ?thesis
    proof (cases "encode_utf8 (str_join '','' ss)")
      case Nil
      then show ?thesis
        by (simp add: receive_message_def Inr ss log_msg_frame)
    next
      case (Cons b0 bs)
      have "attempted (snd (receive_message env message w)) =
              attempted w @ [\<lparr>rec_topic = INBOUND_TOPIC env, rec_value = message,
                               rec_key = Some (b0 # bs)\<rparr>]"
        by (simp add: receive_message_def Inr ss Cons relay_result_snd send_and_wait_frame
            log_msg_frame)
      then show ?thesis
        by blast
    qed
  qed
qed

section \<open>The queue payload: \<open>from_bytes\<close> after \<open>to_bytes\<close>\<close>

subsection \<open>\<open>urlsafe_b64decode\<close> after \<open>urlsafe_b64encode\<close>\<close>

lemma b64_val_b64_char:
  assumes "v < 64"
  shows "b64_val (urlsafe_decode_translation (urlsafe_encode_translation (b64_char v))) = Some v"
proof -
  consider "v < 26" | "26 \<le> v \<and> v < 52" | "52 \<le> v \<and> v < 62" | "v = 62" | "v = 63"
    using assms by linarith
  then show ?thesis
  proof cases
    case 1
    then show ?thesis
      by (simp add: b64_char_def urlsafe_encode_translation_def urlsafe_decode_translation_def
          b64_val_def char_of_eq_iff take_bit_eq_mod Let_def)
  next
    case 2
    then show ?thesis
      by (simp add: b64_char_def urlsafe_encode_translation_def urlsafe_decode_translation_def
          b64_val_def char_of_eq_iff take_bit_eq_mod Let_def)
  next
    case 3
    then have "v - 4 < 256"
      by linarith
    then have m: "(v - 4) mod 256 = v - 4"
      by (rule mod_less)
    have f: "48 \<le> v - 4" "v - 4 \<le> 57" "v - 4 + 4 = v"
      "v - 4 \<noteq> 95" "v - 4 \<noteq> 47" "v - 4 \<noteq> 43" "v - 4 \<noteq> 45"
      "\<not> 65 \<le> v - 4" "\<not> 97 \<le> v - 4"
      using 3 by linarith+
    from 3 show ?thesis
      by (simp add: b64_char_def urlsafe_encode_translation_def urlsafe_decode_translation_def
          b64_val_def char_of_eq_iff take_bit_eq_mod Let_def m f)
  next
    case 4
    then show ?thesis
      by (simp add: b64_char_def urlsafe_encode_translation_def urlsafe_decode_translation_def
          b64_val_def)
  next
    case 5
    then show ?thesis
      by (simp add: b64_char_def urlsafe_encode_translation_def urlsafe_decode_translation_def
          b64_val_def)
  qed
qed

text \<open>A character with a value in the alphabet is below 128 and is neither white space nor the padding.\<close>

lemma b64_val_Some_plain:
  assumes "b64_val c = Some v"
  shows "\<not> (of_char c :: nat) > 127 \<and> c \<noteq> CHR 0x0D \<and> c \<noteq> CHR 0x0A \<and> c \<noteq> CHR '' ''
         \<and> c \<noteq> CHR ''=''"
proof -
  have "c = CHR 0x0D \<or> c = CHR 0x0A \<or> c = CHR '' '' \<or> c = CHR ''='' \<Longrightarrow> b64_val c = None"
    by (auto simp add: b64_val_def)
  moreover have "(of_char c :: nat) > 127 \<Longrightarrow> b64_val c = None"
    by (auto simp add: b64_val_def Let_def)
  ultimately show ?thesis
    using assms by fastforce
qed

lemma a2b_loop_step:
  assumes "b64_val c = Some v"
  shows "a2b_loop q lc lb (c # cs) out =
     (if lb + 6 \<ge> 8 then
        a2b_loop ((q + 1) mod 4) ((lc * 64 + v) mod 2 ^ (lb + 6 - 8)) (lb + 6 - 8) cs
          (out @ [char_of ((lc * 64 + v) div 2 ^ (lb + 6 - 8) mod 256)])
      else a2b_loop ((q + 1) mod 4) (lc * 64 + v) (lb + 6) cs out)"
  using b64_val_Some_plain [OF assms] assms by (simp add: Let_def)

lemma sextets_of_first_byte: "(x::nat) div 4 * 64 + x mod 4 * 16 = x * 16"
  by presburger

lemma sextets_of_second_byte: "(y::nat) div 16 * 64 + y mod 16 * 4 = y * 4"
  by presburger

lemma second_sextet_step: fixes x y :: nat assumes "x < 256" "y < 256"
  shows "(x div 4 * 64 + (x mod 4 * 16 + y div 16)) div 16 mod 256 = x"
    and "(x div 4 * 64 + (x mod 4 * 16 + y div 16)) mod 16 = y div 16"
proof -
  have e: "x div 4 * 64 + (x mod 4 * 16 + y div 16) = x * 16 + y div 16"
    using sextets_of_first_byte [of x] by simp
  have s: "y div 16 < 16"
    using assms(2) by simp
  show "(x div 4 * 64 + (x mod 4 * 16 + y div 16)) div 16 mod 256 = x"
    unfolding e using s assms(1) by simp
  show "(x div 4 * 64 + (x mod 4 * 16 + y div 16)) mod 16 = y div 16"
    unfolding e using s by simp
qed

lemma third_sextet_step: fixes y z :: nat assumes "y < 256" "z < 256"
  shows "(y div 16 * 64 + (y mod 16 * 4 + z div 64)) div 4 mod 256 = y"
    and "(y div 16 * 64 + (y mod 16 * 4 + z div 64)) mod 4 = z div 64"
proof -
  have e: "y div 16 * 64 + (y mod 16 * 4 + z div 64) = y * 4 + z div 64"
    using sextets_of_second_byte [of y] by simp
  have s: "z div 64 < 4"
    using assms(2) by simp
  show "(y div 16 * 64 + (y mod 16 * 4 + z div 64)) div 4 mod 256 = y"
    unfolding e using s assms(1) by simp
  show "(y div 16 * 64 + (y mod 16 * 4 + z div 64)) mod 4 = z div 64"
    unfolding e using s by simp
qed

lemma fourth_sextet_step: fixes z :: nat assumes "z < 256"
  shows "(z div 64 * 64 + z mod 64) mod 256 = z"
  using assms by simp

lemma one_byte_tail: fixes x :: nat assumes "x < 256"
  shows "(x div 4 * 64 + x mod 4 * 16) div 16 mod 256 = x"
    and "(x div 4 * 64 + x mod 4 * 16) mod 16 = 0"
  unfolding sextets_of_first_byte using assms by simp_all

lemma two_byte_tail: fixes y :: nat assumes "y < 256"
  shows "(y div 16 * 64 + y mod 16 * 4) div 4 mod 256 = y"
    and "(y div 16 * 64 + y mod 16 * 4) mod 4 = 0"
  unfolding sextets_of_second_byte using assms by simp_all

lemma sextet_bounds: fixes x y z :: nat assumes "x < 256" "y < 256" "z < 256"
  shows "x div 4 < 64" "x mod 4 * 16 + y div 16 < 64" "y mod 16 * 4 + z div 64 < 64" "z mod 64 < 64"
    "x mod 4 * 16 < 64" "y mod 16 * 4 < 64"
proof -
  have a: "x mod 4 < 4" "y mod 16 < 16" "y div 16 < 16" "z div 64 < 4"
    using assms by simp_all
  show "x div 4 < 64" using assms by simp
  show "x mod 4 * 16 + y div 16 < 64" using a by linarith
  show "y mod 16 * 4 + z div 64 < 64" using a by linarith
  show "z mod 64 < 64" by simp
  show "x mod 4 * 16 < 64" using a by linarith
  show "y mod 16 * 4 < 64" using a by linarith
qed


lemma a2b_loop_enc:
  assumes "v < 64"
  shows "a2b_loop q lc lb
           (urlsafe_decode_translation (urlsafe_encode_translation (b64_char v)) # cs) out =
     (if lb + 6 \<ge> 8 then
        a2b_loop ((q + 1) mod 4) ((lc * 64 + v) mod 2 ^ (lb + 6 - 8)) (lb + 6 - 8) cs
          (out @ [char_of ((lc * 64 + v) div 2 ^ (lb + 6 - 8) mod 256)])
      else a2b_loop ((q + 1) mod 4) (lc * 64 + v) (lb + 6) cs out)"
  by (rule a2b_loop_step [OF b64_val_b64_char [OF assms]])

lemma a2b_loop_pad:
  "a2b_loop q lc lb (CHR ''='' # cs) out =
     (if q < 2 \<or> (q = 2 \<and> find_valid (CHR ''='' # cs) 1 \<noteq> Some (CHR ''=''))
      then a2b_loop q lc lb cs out else (0, out))"
  by simp

lemma translate_pad:
  "urlsafe_decode_translation (urlsafe_encode_translation (CHR ''='')) = CHR ''=''"
  by (simp add: urlsafe_decode_translation_def urlsafe_encode_translation_def)

lemma find_valid_pad_pad: "find_valid [CHR ''='', CHR ''=''] 1 = Some (CHR ''='')"
  by (simp add: b64_val_def)

lemma a2b_loop_group:
  fixes x y z :: nat
  assumes x: "x < 256" and y: "y < 256" and z: "z < 256"
  shows "a2b_loop 0 0 0
           (urlsafe_decode_translation (urlsafe_encode_translation (b64_char (x div 4)))
            # urlsafe_decode_translation (urlsafe_encode_translation
                (b64_char (x mod 4 * 16 + y div 16)))
            # urlsafe_decode_translation (urlsafe_encode_translation
                (b64_char (y mod 16 * 4 + z div 64)))
            # urlsafe_decode_translation (urlsafe_encode_translation (b64_char (z mod 64)))
            # rest) out
         = a2b_loop 0 0 0 rest (out @ [char_of x, char_of y, char_of z])"
proof -
  note b = sextet_bounds [OF x y z]
  have "a2b_loop 0 0 0
           (urlsafe_decode_translation (urlsafe_encode_translation (b64_char (x div 4)))
            # urlsafe_decode_translation (urlsafe_encode_translation
                (b64_char (x mod 4 * 16 + y div 16)))
            # urlsafe_decode_translation (urlsafe_encode_translation
                (b64_char (y mod 16 * 4 + z div 64)))
            # urlsafe_decode_translation (urlsafe_encode_translation (b64_char (z mod 64)))
            # rest) out
        = a2b_loop ((0 + 1) mod 4) (x div 4) 6
           (urlsafe_decode_translation (urlsafe_encode_translation
                (b64_char (x mod 4 * 16 + y div 16)))
            # urlsafe_decode_translation (urlsafe_encode_translation
                (b64_char (y mod 16 * 4 + z div 64)))
            # urlsafe_decode_translation (urlsafe_encode_translation (b64_char (z mod 64)))
            # rest) out"
    by (simp add: a2b_loop_enc [OF b(1)] del: a2b_loop.simps)
  also have "\<dots> = a2b_loop (((0 + 1) mod 4 + 1) mod 4) (y div 16) 4
           (urlsafe_decode_translation (urlsafe_encode_translation
                (b64_char (y mod 16 * 4 + z div 64)))
            # urlsafe_decode_translation (urlsafe_encode_translation (b64_char (z mod 64)))
            # rest) (out @ [char_of x])"
    by (simp add: a2b_loop_enc [OF b(2)] second_sextet_step [OF x y] del: a2b_loop.simps)
  also have "\<dots> = a2b_loop ((((0 + 1) mod 4 + 1) mod 4 + 1) mod 4) (z div 64) 2
           (urlsafe_decode_translation (urlsafe_encode_translation (b64_char (z mod 64)))
            # rest) (out @ [char_of x, char_of y])"
    by (simp add: a2b_loop_enc [OF b(3)] third_sextet_step [OF y z] del: a2b_loop.simps)
  also have "\<dots> = a2b_loop 0 0 0 rest (out @ [char_of x, char_of y, char_of z])"
    by (simp add: a2b_loop_enc [OF b(4)] fourth_sextet_step [OF z] del: a2b_loop.simps)
  finally show ?thesis .
qed

lemma a2b_loop_b64encode:
  "a2b_loop 0 0 0 (map urlsafe_decode_translation (map urlsafe_encode_translation (b64encode bs))) out
     = (0, out @ bs)"
proof (induction bs arbitrary: out rule: b64encode.induct)
  case 1
  show ?case by simp
next
  case (2 a)
  have x: "(of_char a :: nat) < 256"
    by simp
  show ?case
    using sextet_bounds [OF x x x] one_byte_tail [OF x]
    by (simp add: Let_def a2b_loop_enc a2b_loop_pad translate_pad find_valid_pad_pad
        del: a2b_loop.simps)
next
  case (3 a b)
  have x: "(of_char a :: nat) < 256" and y: "(of_char b :: nat) < 256"
    by simp_all
  show ?case
    using sextet_bounds [OF x y y] second_sextet_step [OF x y] two_byte_tail [OF y]
    by (simp add: Let_def a2b_loop_enc a2b_loop_pad translate_pad
        del: a2b_loop.simps)
next
  case (4 a b c bs)
  have x: "(of_char a :: nat) < 256" and y: "(of_char b :: nat) < 256"
    and z: "(of_char c :: nat) < 256"
    by simp_all
  show ?case
    using "4.IH" [of "out @ [a, b, c]"]
    by (simp add: Let_def a2b_loop_group [OF x y z] del: a2b_loop.simps)
qed

lemma b64_char_ascii:
  assumes "v < 64"
  shows "(of_char (urlsafe_encode_translation (b64_char v)) :: nat) < 128"
proof -
  consider "v < 26" | "26 \<le> v \<and> v < 52" | "52 \<le> v \<and> v < 62" | "v = 62" | "v = 63"
    using assms by linarith
  then show ?thesis
  proof cases
    case 3
    then have "v - 4 < 128" "v - 4 < 256"
      by linarith+
    with 3 show ?thesis
      by (simp add: urlsafe_encode_translation_def b64_char_def)
  qed (simp_all add: urlsafe_encode_translation_def b64_char_def)
qed

lemma urlsafe_b64encode_ascii: "\<forall>c \<in> set (urlsafe_b64encode bs). (of_char c :: nat) < 128"
proof (induction bs rule: b64encode.induct)
  case 1
  show ?case by (simp add: urlsafe_b64encode_def)
next
  case (2 a)
  have x: "(of_char a :: nat) < 256"
    by simp
  show ?case
    using sextet_bounds [OF x x x]
    by (simp add: urlsafe_b64encode_def Let_def b64_char_ascii)
       (simp add: urlsafe_encode_translation_def)
next
  case (3 a b)
  have x: "(of_char a :: nat) < 256" and y: "(of_char b :: nat) < 256"
    by simp_all
  show ?case
    using sextet_bounds [OF x y y]
    by (simp add: urlsafe_b64encode_def Let_def b64_char_ascii)
       (simp add: urlsafe_encode_translation_def)
next
  case (4 a b c bs)
  have x: "(of_char a :: nat) < 256" and y: "(of_char b :: nat) < 256"
    and z: "(of_char c :: nat) < 256"
    by simp_all
  show ?case
    using sextet_bounds [OF x y z] 4
    by (simp add: urlsafe_b64encode_def Let_def b64_char_ascii)
qed

lemma urlsafe_b64decode_str_encode: "urlsafe_b64decode_str (urlsafe_b64encode bs) = Inr bs"
proof -
  have "encode_ascii (urlsafe_b64encode bs) = Inr (urlsafe_b64encode bs)"
    using urlsafe_b64encode_ascii [of bs] by (simp add: encode_ascii_def)
  moreover have "urlsafe_b64decode (urlsafe_b64encode bs) = Inr bs"
    unfolding urlsafe_b64decode_def a2b_base64_def urlsafe_b64encode_def
      a2b_loop_b64encode [of bs "[]"]
    by simp
  ultimately show ?thesis
    by (simp add: urlsafe_b64decode_str_def)
qed

subsection \<open>\<open>decode("utf8")\<close> after \<open>encode("utf8")\<close>\<close>

lemma high_div_64:
  fixes n :: nat
  assumes "128 \<le> n" "n < 256"
  shows "n div 64 = 2 \<or> n div 64 = 3"
proof -
  have "128 div 64 \<le> n div 64"
    using assms(1) by (rule div_le_mono)
  then have lo: "2 \<le> n div 64"
    by simp
  have "n < 4 * 64"
    using assms(2) by simp
  then have hi: "n div 64 < 4"
    by (simp add: less_mult_imp_div_less)
  from lo hi show ?thesis
    by linarith
qed

lemma utf8_char_high:
  assumes "\<not> (of_char c :: nat) < 128"
  shows "\<exists>a b. utf8_char c = [a, b]
           \<and> ((of_char a :: nat) = 194 \<or> (of_char a :: nat) = 195)
           \<and> 128 \<le> (of_char b :: nat) \<and> (of_char b :: nat) < 192
           \<and> char_of (((of_char a :: nat) - 192) * 64 + ((of_char b :: nat) - 128)) = c"
proof -
  define n where "n = (of_char c :: nat)"
  have n: "128 \<le> n" "n < 256"
    using assms by (simp_all add: n_def)
  have d: "n div 64 = 2 \<or> n div 64 = 3"
    using n by (rule high_div_64)
  have m: "n mod 64 < 64"
    by simp
  have l256: "192 + n div 64 < 256"
    using d by linarith
  have c256: "128 + n mod 64 < 256"
    using m by linarith
  have lead: "(of_char (char_of (192 + n div 64)) :: nat) = 192 + n div 64"
    using l256 by simp
  have cont: "(of_char (char_of (128 + n mod 64)) :: nat) = 128 + n mod 64"
    using c256 by simp
  have "(192 + n div 64 - 192) * 64 + (128 + n mod 64 - 128) = n"
    by simp
  then have orig: "char_of ((192 + n div 64 - 192) * 64 + (128 + n mod 64 - 128)) = c"
    by (simp add: n_def)
  have u: "utf8_char c = [char_of (192 + n div 64), char_of (128 + n mod 64)]"
    using assms by (simp add: utf8_char_def Let_def n_def)
  have a: "(of_char (char_of (192 + n div 64)) :: nat) = 194
           \<or> (of_char (char_of (192 + n div 64)) :: nat) = 195"
    unfolding lead using d by linarith
  have b: "128 \<le> (of_char (char_of (128 + n mod 64)) :: nat)"
    "(of_char (char_of (128 + n mod 64)) :: nat) < 192"
    unfolding cont using m by linarith+
  have k: "char_of (((of_char (char_of (192 + n div 64)) :: nat) - 192) * 64
             + ((of_char (char_of (128 + n mod 64)) :: nat) - 128)) = c"
    unfolding lead cont by (rule orig)
  from u a b k show ?thesis
    by blast
qed

lemma decode_utf8_two:
  assumes a: "(of_char a :: nat) = 194 \<or> (of_char a :: nat) = 195"
    and b: "128 \<le> (of_char b :: nat)" "(of_char b :: nat) < 192"
  shows "decode_utf8 (a # b # rest) =
     (case decode_utf8 rest of
        Inl e \<Rightarrow> Inl e
      | Inr s \<Rightarrow> Inr (char_of (((of_char a :: nat) - 192) * 64 + ((of_char b :: nat) - 128)) # s))"
  using a b by (auto simp add: Let_def)

lemma decode_utf8_char:
  "decode_utf8 (utf8_char c @ rest) =
     (case decode_utf8 rest of Inl e \<Rightarrow> Inl e | Inr s \<Rightarrow> Inr (c # s))"
proof (cases "(of_char c :: nat) < 128")
  case True
  then show ?thesis
    by (simp add: utf8_char_def)
next
  case False
  from utf8_char_high [OF False] obtain a b where u: "utf8_char c = [a, b]"
    and a: "(of_char a :: nat) = 194 \<or> (of_char a :: nat) = 195"
    and b: "128 \<le> (of_char b :: nat)" "(of_char b :: nat) < 192"
    and k: "char_of (((of_char a :: nat) - 192) * 64 + ((of_char b :: nat) - 128)) = c"
    by blast
  have "decode_utf8 (a # b # rest) =
          (case decode_utf8 rest of Inl e \<Rightarrow> Inl e | Inr s \<Rightarrow> Inr (c # s))"
    using decode_utf8_two [OF a b, of rest] unfolding k .
  then show ?thesis
    unfolding u by simp
qed

lemma decode_utf8_encode: "decode_utf8 (encode_utf8 s) = Inr s"
proof (induction s)
  case Nil
  show ?case by (simp add: encode_utf8_def)
next
  case (Cons c s)
  then show ?case
    by (simp add: encode_utf8_def decode_utf8_char del: decode_utf8.simps)
qed

subsection \<open>The scanner on a string written by \<open>json.dumps\<close>\<close>

lemma hex_val_hex_digit:
  assumes "n < 16"
  shows "hex_val (hex_digit n) = Some n"
proof -
  from assms have "n = 0 \<or> n = 1 \<or> n = 2 \<or> n = 3 \<or> n = 4 \<or> n = 5 \<or> n = 6 \<or> n = 7 \<or> n = 8
      \<or> n = 9 \<or> n = 10 \<or> n = 11 \<or> n = 12 \<or> n = 13 \<or> n = 14 \<or> n = 15"
    by arith
  then show ?thesis
    by (elim disjE) (simp_all add: hex_digit_def hex_val_def)
qed

lemma scanstring_escape_char:
  "scanstring acc (escape_char c @ rest) = scanstring (acc @ [c]) rest"
proof -
  let ?n = "of_char c :: nat"
  consider (short) "c = CHR 0x5C \<or> c = CHR 0x22 \<or> c = CHR 0x08 \<or> c = CHR 0x0C \<or> c = CHR 0x0A
                    \<or> c = CHR 0x0D \<or> c = CHR 0x09"
    | (plain) "c \<noteq> CHR 0x5C" "c \<noteq> CHR 0x22" "32 \<le> ?n" "?n \<le> 126"
    | (hex) "c \<noteq> CHR 0x5C" "c \<noteq> CHR 0x22" "c \<noteq> CHR 0x08" "c \<noteq> CHR 0x0C" "c \<noteq> CHR 0x0A"
            "c \<noteq> CHR 0x0D" "c \<noteq> CHR 0x09" "\<not> (32 \<le> ?n \<and> ?n \<le> 126)"
    by (cases "32 \<le> ?n \<and> ?n \<le> 126") auto
  then show ?thesis
  proof cases
    case short
    then show ?thesis
      by (auto simp add: escape_char_def unescape_def)
  next
    case plain
    have "escape_char c = [c]"
    proof -
      have "c \<noteq> CHR 0x08" "c \<noteq> CHR 0x0C" "c \<noteq> CHR 0x0A" "c \<noteq> CHR 0x0D" "c \<noteq> CHR 0x09"
        using plain(3) by auto
      then show ?thesis
        using plain by (simp add: escape_char_def)
    qed
    then show ?thesis
      using plain by simp
  next
    case hex
    have e: "escape_char c = [CHR 0x5C, CHR ''u'', CHR ''0'', CHR ''0'',
                               hex_digit (?n div 16), hex_digit (?n mod 16)]"
      using hex by (simp add: escape_char_def)
    have h: "?n div 16 < 16" "?n mod 16 < 16"
      by (simp_all add: less_mult_imp_div_less)
    have z: "hex_val (CHR ''0'') = Some 0"
      by (simp add: hex_val_def)
    have v: "((0 * 16 + 0) * 16 + ?n div 16) * 16 + ?n mod 16 = ?n"
      by simp
    have d: "decode_uXXXX (CHR ''0'' # CHR ''0'' # hex_digit (?n div 16) # hex_digit (?n mod 16) # rest)
               = Inr (c, rest)"
      unfolding decode_uXXXX_def
      by (simp add: z hex_val_hex_digit [OF h(1)] hex_val_hex_digit [OF h(2)] Let_def)
    show ?thesis
      unfolding e by (simp add: d)
  qed
qed
lemma scanstring_escaped:
  "scanstring acc (concat (map escape_char s) @ CHR 0x22 # rest) = Inr (acc @ s, rest)"
proof (induction s arbitrary: acc)
  case Nil
  show ?case by simp
next
  case (Cons c s)
  show ?case
    using Cons [of "acc @ [c]"]
    by (simp add: scanstring_escape_char del: scanstring.simps)
qed

subsection \<open>The scanner on an integer written by \<open>json.dumps\<close>\<close>

lemma digit_char:
  assumes "d < 10"
  shows "is_digit (''0123456789'' ! d)" and "digit_val (''0123456789'' ! d) = d"
    and "(''0123456789'' ! d = CHR ''0'') = (d = 0)"
proof -
  from assms have "d = 0 \<or> d = 1 \<or> d = 2 \<or> d = 3 \<or> d = 4 \<or> d = 5 \<or> d = 6 \<or> d = 7 \<or> d = 8
      \<or> d = 9"
    by arith
  then show "is_digit (''0123456789'' ! d)" and "digit_val (''0123456789'' ! d) = d"
    and "(''0123456789'' ! d = CHR ''0'') = (d = 0)"
    by (elim disjE; simp add: is_digit_def digit_val_def)+
qed

lemma show_nat_digits: "\<forall>c \<in> set (show_nat n). is_digit c"
proof (induction n rule: show_nat.induct)
  case (1 n)
  show ?case
  proof (cases "n < 10")
    case True
    then show ?thesis
      by (subst show_nat.simps) (simp add: digit_char(1) del: show_nat.simps)
  next
    case False
    have "n mod 10 < 10"
      by simp
    then have "is_digit (''0123456789'' ! (n mod 10))"
      by (rule digit_char(1))
    then show ?thesis
      using False 1 by (subst show_nat.simps) (simp del: show_nat.simps)
  qed
qed

lemma show_nat_not_Nil: "show_nat n \<noteq> []"
  by (subst show_nat.simps) (simp del: show_nat.simps)

lemma nat_of_digits_snoc: "nat_of_digits (ds @ [c]) = 10 * nat_of_digits ds + digit_val c"
  by (simp add: nat_of_digits_def)

lemma nat_of_digits_show_nat: "nat_of_digits (show_nat n) = n"
proof (induction n rule: show_nat.induct)
  case (1 n)
  show ?case
  proof (cases "n < 10")
    case True
    then show ?thesis
      by (subst show_nat.simps) (simp add: nat_of_digits_def digit_char(2) del: show_nat.simps)
  next
    case False
    have "n mod 10 < 10"
      by simp
    then have "digit_val (''0123456789'' ! (n mod 10)) = n mod 10"
      by (rule digit_char(2))
    then show ?thesis
      using False 1 by (subst show_nat.simps) (simp add: nat_of_digits_snoc del: show_nat.simps)
  qed
qed

lemma hd_show_nat_zero: "(hd (show_nat n) = CHR ''0'') = (n = 0)"
proof (induction n rule: show_nat.induct)
  case (1 n)
  show ?case
  proof (cases "n < 10")
    case True
    then show ?thesis
      by (subst show_nat.simps) (simp add: digit_char(3) del: show_nat.simps)
  next
    case False
    then have "n div 10 \<noteq> 0"
      by simp
    then show ?thesis
      using False 1 show_nat_not_Nil [of "n div 10"]
      by (subst show_nat.simps) (simp del: show_nat.simps)
  qed
qed

lemma takeWhile_digits:
  assumes "\<forall>c \<in> set ds. is_digit c" and "rest = [] \<or> \<not> is_digit (hd rest)"
  shows "takeWhile is_digit (ds @ rest) = ds"
proof (cases rest)
  case Nil
  then show ?thesis
    using assms(1) by simp
next
  case (Cons c cs)
  then have "\<not> is_digit c"
    using assms(2) by simp
  then show ?thesis
    using assms(1) by (simp add: Cons takeWhile_append2)
qed

lemma match_number_digits:
  assumes nd: "\<not> is_float_tail rest" and r: "rest = [] \<or> \<not> is_digit (hd rest)"
  shows "match_number (show_nat n @ rest) = Inr (JInt (int n), rest)"
proof -
  obtain d ds where s: "show_nat n = d # ds"
    using show_nat_not_Nil [of n] by (cases "show_nat n") (auto simp del: show_nat.simps)
  have dig: "\<forall>c \<in> set (show_nat n). is_digit c"
    by (rule show_nat_digits)
  then have d: "is_digit d"
    by (simp add: s del: show_nat.simps)
  then have nm: "d \<noteq> CHR ''-''"
    by (auto simp add: is_digit_def)
  have tw: "takeWhile is_digit (show_nat n @ rest) = show_nat n"
    using takeWhile_digits [OF dig r] .
  show ?thesis
  proof (cases "d = CHR ''0''")
    case True
    then have n0: "n = 0"
      using hd_show_nat_zero [of n] by (simp add: s del: show_nat.simps)
    have z: "show_nat 0 = [CHR ''0'']"
      by (subst show_nat.simps) (simp del: show_nat.simps)
    show ?thesis
      unfolding n0 z using nd
      by (simp add: match_number_def is_digit_def nat_of_digits_def digit_val_def Let_def)
  next
    case False
    have v: "nat_of_digits (d # ds) = n"
      using nat_of_digits_show_nat [of n] by (simp add: s del: show_nat.simps)
    have tw': "takeWhile is_digit (d # ds @ rest) = d # ds"
      using tw by (simp add: s del: show_nat.simps)
    show ?thesis
      using nd d nm False v
      by (simp add: s match_number_def tw' Let_def del: takeWhile.simps show_nat.simps)
  qed
qed

lemma match_number_show_int:
  assumes nd: "\<not> is_float_tail rest" and r: "rest = [] \<or> \<not> is_digit (hd rest)"
  shows "match_number (show_int i @ rest) = Inr (JInt i, rest)"
proof (cases "i < 0")
  case False
  then show ?thesis
    using match_number_digits [OF nd r, of "nat i"] by (simp add: show_int_def del: show_nat.simps)
next
  case True
  obtain d ds where s: "show_nat (nat (- i)) = d # ds"
    using show_nat_not_Nil [of "nat (- i)"] by (cases "show_nat (nat (- i))") (auto simp del: show_nat.simps)
  have "is_digit d"
    using show_nat_digits [of "nat (- i)"] by (simp add: s del: show_nat.simps)
  then have nm: "d \<noteq> CHR ''-''"
    by (auto simp add: is_digit_def)
  have m: "match_number (d # ds @ rest) = Inr (JInt (int (nat (- i))), rest)"
    using match_number_digits [OF nd r, of "nat (- i)"] by (simp add: s del: show_nat.simps)
  have "match_number (CHR ''-'' # d # ds @ rest) = Inr (JInt (- int (nat (- i))), rest)"
    using m nm by (simp add: match_number_def Let_def del: show_nat.simps split: if_splits)
  then show ?thesis
    using True by (simp add: show_int_def s del: show_nat.simps)
qed

subsection \<open>The scanner on the members of an object\<close>

lemma skip_ws_not_ws: "\<not> is_ws c \<Longrightarrow> skip_ws (c # cs) = c # cs"
  by (simp add: skip_ws_def)

lemma skip_ws_space: "skip_ws (CHR '' '' # cs) = skip_ws cs"
  by (simp add: skip_ws_def is_ws_def)

lemma dumps_str_Cons:
  "dumps_str s @ rest = CHR 0x22 # concat (map escape_char s) @ CHR 0x22 # rest"
  by (simp add: dumps_str_def)

lemma skip_ws_quote: "skip_ws (CHR 0x22 # cs) = CHR 0x22 # cs"
  by (simp add: skip_ws_def is_ws_def)

lemma skip_ws_dumps_str: "skip_ws (dumps_str s @ rest) = dumps_str s @ rest"
  unfolding dumps_str_Cons by (rule skip_ws_quote)

lemma scan_once_string: "scan_once (Suc n) (dumps_str s @ rest) = Inr (JStr s, rest)"
  unfolding dumps_str_Cons
  using scanstring_escaped [of "[]" s rest]
  by (simp del: scanstring.simps)

lemma scan_once_object:
  "scan_once (Suc n) (CHR ''{'' # dumps_str k @ rest) = object_items n [] (dumps_str k @ rest)"
  unfolding dumps_str_Cons
  by (simp add: skip_ws_quote del: scanstring.simps)

lemma object_items_last:
  assumes a: "scan_once n (vtext @ CHR ''}'' # r3) = Inr (v, CHR ''}'' # r3)"
    and w: "skip_ws (vtext @ CHR ''}'' # r3) = vtext @ CHR ''}'' # r3"
  shows "object_items (Suc n) acc (dumps_str k @ CHR '':'' # CHR '' '' # vtext @ CHR ''}'' # r3)
           = Inr (JObj (dict_set k v acc), r3)"
proof -
  have s: "scanstring [] (concat (map escape_char k) @ CHR 0x22 # CHR '':'' # CHR '' '' # vtext @ CHR ''}'' # r3)
             = Inr (k, CHR '':'' # CHR '' '' # vtext @ CHR ''}'' # r3)"
    using scanstring_escaped [of "[]" k "CHR '':'' # CHR '' '' # vtext @ CHR ''}'' # r3"] by simp
  have w1: "skip_ws (CHR '':'' # CHR '' '' # vtext @ CHR ''}'' # r3) = CHR '':'' # CHR '' '' # vtext @ CHR ''}'' # r3"
    by (simp add: skip_ws_def is_ws_def)
  have w2: "skip_ws (CHR '' '' # vtext @ CHR ''}'' # r3) = vtext @ CHR ''}'' # r3"
    unfolding skip_ws_space by (rule w)
  have w3: "skip_ws (CHR ''}'' # r3) = CHR ''}'' # r3"
    by (simp add: skip_ws_def is_ws_def)
  show ?thesis
    unfolding dumps_str_Cons
    by (simp add: s w1 w2 w3 a del: scanstring.simps scan_once.simps)
qed

lemma object_items_more:
  assumes a: "scan_once n (vtext @ CHR '','' # CHR '' '' # dumps_str k2 @ r4)
                = Inr (v, CHR '','' # CHR '' '' # dumps_str k2 @ r4)"
    and w: "skip_ws (vtext @ CHR '','' # CHR '' '' # dumps_str k2 @ r4)
                = vtext @ CHR '','' # CHR '' '' # dumps_str k2 @ r4"
  shows "object_items (Suc n) acc
           (dumps_str k @ CHR '':'' # CHR '' '' # vtext @ CHR '','' # CHR '' '' # dumps_str k2 @ r4)
           = object_items n (dict_set k v acc) (dumps_str k2 @ r4)"
proof -
  define r where "r = CHR '','' # CHR '' '' # dumps_str k2 @ r4"
  have s: "scanstring [] (concat (map escape_char k) @ CHR 0x22 # CHR '':'' # CHR '' '' # vtext @ r)
             = Inr (k, CHR '':'' # CHR '' '' # vtext @ r)"
    using scanstring_escaped [of "[]" k "CHR '':'' # CHR '' '' # vtext @ r"] by simp
  have w1: "skip_ws (CHR '':'' # CHR '' '' # vtext @ r) = CHR '':'' # CHR '' '' # vtext @ r"
    by (simp add: skip_ws_def is_ws_def)
  have w2: "skip_ws (CHR '' '' # vtext @ r) = vtext @ r"
    unfolding skip_ws_space r_def by (rule w)
  have w3: "skip_ws r = CHR '','' # CHR '' '' # dumps_str k2 @ r4"
    unfolding r_def by (simp add: skip_ws_def is_ws_def)
  have w4: "skip_ws (CHR '' '' # dumps_str k2 @ r4) = dumps_str k2 @ r4"
    unfolding skip_ws_space by (rule skip_ws_dumps_str)
  have a': "scan_once n (vtext @ r) = Inr (v, r)"
    unfolding r_def by (rule a)
  have "object_items (Suc n) acc (dumps_str k @ CHR '':'' # CHR '' '' # vtext @ r)
           = object_items n (dict_set k v acc) (dumps_str k2 @ r4)"
    unfolding dumps_str_Cons [of k]
    by (simp add: s w1 w2 w3 w4 a' del: scanstring.simps scan_once.simps)
  then show ?thesis unfolding r_def .
qed

subsection \<open>The text of a payload\<close>

lemma show_int_Cons:
  "\<exists>d ds. is_digit d \<and> (show_int i = d # ds \<or> show_int i = CHR ''-'' # d # ds)"
proof -
  define m where "m = (if i < 0 then nat (- i) else nat i)"
  obtain d ds where s: "show_nat m = d # ds"
    using show_nat_not_Nil [of m] by (cases "show_nat m") (auto simp del: show_nat.simps)
  have d: "is_digit d"
    using show_nat_digits [of m] by (simp add: s del: show_nat.simps)
  have "show_int i = d # ds \<or> show_int i = CHR ''-'' # d # ds"
    using s by (simp add: show_int_def m_def del: show_nat.simps split: if_splits)
  with d show ?thesis by blast
qed

lemma is_digit_not_special:
  assumes "is_digit d"
  shows "d \<noteq> CHR 0x22" "d \<noteq> CHR ''{''" "d \<noteq> CHR ''[''" "d \<noteq> CHR ''n''" "d \<noteq> CHR ''t''"
    "d \<noteq> CHR ''f''" "d \<noteq> CHR ''N''" "d \<noteq> CHR ''I''" "d \<noteq> CHR ''-''" "\<not> is_ws d"
  using assms by (auto simp add: is_digit_def is_ws_def)

lemma scan_once_digit:
  assumes "is_digit d"
  shows "scan_once (Suc n) (d # cs) = match_number (d # cs)"
  using is_digit_not_special [OF assms] by simp

lemma scan_once_minus:
  assumes "is_digit d"
  shows "scan_once (Suc n) (CHR ''-'' # d # cs) = match_number (CHR ''-'' # d # cs)"
  using is_digit_not_special(8) [OF assms] by simp

lemma skip_ws_show_int: "skip_ws (show_int i @ rest) = show_int i @ rest"
proof -
  obtain d ds where d: "is_digit d" and s: "show_int i = d # ds \<or> show_int i = CHR ''-'' # d # ds"
    using show_int_Cons [of i] by blast
  from s show ?thesis
  proof
    assume e: "show_int i = d # ds"
    show ?thesis unfolding e using is_digit_not_special(10) [OF d] by (simp add: skip_ws_def)
  next
    assume e: "show_int i = CHR ''-'' # d # ds"
    show ?thesis unfolding e by (simp add: skip_ws_def is_ws_def)
  qed
qed

lemma scan_once_int:
  "scan_once (Suc n) (show_int i @ CHR ''}'' # r) = Inr (JInt i, CHR ''}'' # r)"
proof -
  have m: "match_number (show_int i @ CHR ''}'' # r) = Inr (JInt i, CHR ''}'' # r)"
    by (rule match_number_show_int) (simp_all add: is_float_tail_def is_digit_def)
  obtain d ds where d: "is_digit d" and s: "show_int i = d # ds \<or> show_int i = CHR ''-'' # d # ds"
    using show_int_Cons [of i] by blast
  from s show ?thesis
  proof
    assume e: "show_int i = d # ds"
    show ?thesis
      using m scan_once_digit [OF d, of n "ds @ CHR ''}'' # r"] unfolding e
      by (simp del: scan_once.simps)
  next
    assume e: "show_int i = CHR ''-'' # d # ds"
    show ?thesis
      using m scan_once_minus [OF d, of n "ds @ CHR ''}'' # r"] unfolding e
      by (simp del: scan_once.simps)
  qed
qed

lemma scan_once_service:
  "scan_once (Suc (Suc (Suc n)))
     (CHR ''{'' # dumps_str ''url'' @ CHR '':'' # CHR '' '' # dumps_str u @ CHR ''}'' # rest)
     = Inr (JObj [(''url'', JStr u)], rest)"
proof -
  have a: "scan_once (Suc n) (dumps_str u @ CHR ''}'' # rest) = Inr (JStr u, CHR ''}'' # rest)"
    by (rule scan_once_string)
  have w: "skip_ws (dumps_str u @ CHR ''}'' # rest) = dumps_str u @ CHR ''}'' # rest"
    by (rule skip_ws_dumps_str)
  have "scan_once (Suc (Suc (Suc n)))
          (CHR ''{'' # dumps_str ''url'' @ CHR '':'' # CHR '' '' # dumps_str u @ CHR ''}'' # rest)
        = object_items (Suc (Suc n)) []
            (dumps_str ''url'' @ CHR '':'' # CHR '' '' # dumps_str u @ CHR ''}'' # rest)"
    by (rule scan_once_object)
  also have "\<dots> = Inr (JObj (dict_set ''url'' (JStr u) []), rest)"
    by (rule object_items_last [OF a w])
  also have "\<dots> = Inr (JObj [(''url'', JStr u)], rest)"
    by simp
  finally show ?thesis .
qed

lemma scan_once_to_json:
  "scan_once (Suc (Suc (Suc (Suc (Suc k))))) (json_dumps (to_json p)) = Inr (to_json p, [])"
proof -
  define u where "u = url (service p)"
  define b where "b = urlsafe_b64encode (payload p)"
  define i where "i = retries p"
  define r3 where "r3 = CHR '':'' # CHR '' '' # show_int i @ CHR ''}'' # []"
  define r2 where "r2 = CHR '':'' # CHR '' '' # dumps_str b @ CHR '','' # CHR '' '' # dumps_str ''retries'' @ r3"
  define svc where "svc = CHR ''{'' # dumps_str ''url'' @ CHR '':'' # CHR '' '' # dumps_str u @ CHR ''}'' # []"
  have t: "json_dumps (to_json p)
             = CHR ''{'' # dumps_str ''service'' @ CHR '':'' # CHR '' '' # svc
                 @ CHR '','' # CHR '' '' # dumps_str ''payload'' @ r2"
    by (simp add: to_json_def u_def b_def i_def r2_def r3_def svc_def)
  have a1: "scan_once (Suc (Suc (Suc k))) (svc @ CHR '','' # CHR '' '' # dumps_str ''payload'' @ r2)
              = Inr (JObj [(''url'', JStr u)], CHR '','' # CHR '' '' # dumps_str ''payload'' @ r2)"
    using scan_once_service [of k u "CHR '','' # CHR '' '' # dumps_str ''payload'' @ r2"]
    unfolding svc_def by (simp del: scan_once.simps)
  have w1: "skip_ws (svc @ CHR '','' # CHR '' '' # dumps_str ''payload'' @ r2)
              = svc @ CHR '','' # CHR '' '' # dumps_str ''payload'' @ r2"
    unfolding svc_def by (simp add: skip_ws_def is_ws_def)
  have a2: "scan_once (Suc (Suc k)) (dumps_str b @ CHR '','' # CHR '' '' # dumps_str ''retries'' @ r3)
              = Inr (JStr b, CHR '','' # CHR '' '' # dumps_str ''retries'' @ r3)"
    by (rule scan_once_string)
  have w2: "skip_ws (dumps_str b @ CHR '','' # CHR '' '' # dumps_str ''retries'' @ r3)
              = dumps_str b @ CHR '','' # CHR '' '' # dumps_str ''retries'' @ r3"
    by (rule skip_ws_dumps_str)
  have a3: "scan_once (Suc k) (show_int i @ CHR ''}'' # []) = Inr (JInt i, CHR ''}'' # [])"
    by (rule scan_once_int)
  have w3: "skip_ws (show_int i @ CHR ''}'' # []) = show_int i @ CHR ''}'' # []"
    by (rule skip_ws_show_int)
  define d1 where "d1 = dict_set ''service'' (JObj [(''url'', JStr u)]) []"
  define d2 where "d2 = dict_set ''payload'' (JStr b) d1"
  have "scan_once (Suc (Suc (Suc (Suc (Suc k))))) (json_dumps (to_json p))
          = object_items (Suc (Suc (Suc (Suc k)))) []
              (dumps_str ''service'' @ CHR '':'' # CHR '' '' # svc
                 @ CHR '','' # CHR '' '' # dumps_str ''payload'' @ r2)"
    unfolding t by (rule scan_once_object)
  also have "\<dots> = object_items (Suc (Suc (Suc k))) d1 (dumps_str ''payload'' @ r2)"
    unfolding d1_def by (rule object_items_more [OF a1 w1])
  also have "\<dots> = object_items (Suc (Suc k)) d2 (dumps_str ''retries'' @ r3)"
    unfolding d2_def r2_def by (rule object_items_more [OF a2 w2])
  also have "\<dots> = Inr (JObj (dict_set ''retries'' (JInt i) d2), [])"
    unfolding r3_def by (rule object_items_last [OF a3 w3])
  also have "\<dots> = Inr (to_json p, [])"
    by (simp add: to_json_def u_def b_def i_def d1_def d2_def)
  finally show ?thesis .
qed

lemma json_loads_to_json: "json_loads (json_dumps (to_json p)) = Inr (to_json p)"
proof -
  have "\<exists>x. json_dumps (to_json p) = CHR ''{'' # CHR 0x22 # x"
    by (simp add: to_json_def dumps_str_def)
  then obtain x where t: "json_dumps (to_json p) = CHR ''{'' # CHR 0x22 # x"
    by blast
  have w: "skip_ws (json_dumps (to_json p)) = json_dumps (to_json p)"
    unfolding t by (simp add: skip_ws_def is_ws_def)
  have "2 \<le> length (json_dumps (to_json p))"
    unfolding t by simp
  then have "Suc (2 * length (json_dumps (to_json p)))
               = Suc (Suc (Suc (Suc (Suc (2 * length (json_dumps (to_json p)) - 4)))))"
    by arith
  then obtain k where k: "Suc (2 * length (json_dumps (to_json p))) = Suc (Suc (Suc (Suc (Suc k))))"
    by blast
  show ?thesis
    unfolding json_loads_def w k scan_once_to_json by (simp add: skip_ws_def)
qed

lemma OutboundPayload_init_to_json:
  assumes "scheme_of (url (service p)) = Inr (priv_endpoint_scheme p)"
  shows "OutboundPayload_init scheme_of
           [(''service'', JObj [(''url'', JStr (url (service p)))]),
            (''payload'', JStr (urlsafe_b64encode (payload p))),
            (''retries'', JInt (retries p))] = Inr p"
  using assms
  by (simp add: OutboundPayload_init_def validate_Service_def validate_str_def
      decode_payload_to_bytes_def urlsafe_b64decode_str_encode validate_int_def)

text \<open>
  C1. An \<open>OutboundPayload\<close> is valid when it is what \<open>__init__\<close> left: its private
  \<open>_endpoint_scheme\<close> is the scheme that \<open>urlparse\<close> gives for its \<open>service.url\<close>. For
  every such \<open>p\<close>, with any URL, any payload bytes and any \<open>retries\<close> (negative ones
  too), \<open>from_bytes (to_bytes p)\<close> returns, and returns \<open>p\<close>: the same \<open>service.url\<close>,
  the same payload bytes, the same \<open>retries\<close>, and the scheme derived again is the
  \<open>endpoint_scheme\<close> of \<open>p\<close>. The text is within the embedding's \<open>str\<close>, code points
  below 256, and \<open>str(n)\<close> is total, as it is before CPython 3.11.
\<close>

theorem C1_from_bytes_to_bytes:
  assumes "scheme_of (url (service p)) = Inr (endpoint_scheme p)"
  shows "from_bytes scheme_of (to_bytes p) = Inr p"
proof -
  have i: "OutboundPayload_init scheme_of
             [(''service'', JObj [(''url'', JStr (url (service p)))]),
              (''payload'', JStr (urlsafe_b64encode (payload p))),
              (''retries'', JInt (retries p))] = Inr p"
    using assms unfolding endpoint_scheme_def by (rule OutboundPayload_init_to_json)
  have "from_bytes scheme_of (to_bytes p)
          = (case to_json p of JObj kwargs \<Rightarrow> OutboundPayload_init scheme_of kwargs
             | _ \<Rightarrow> Inl TypeError)"
    by (simp add: from_bytes_def to_bytes_def decode_utf8_encode json_loads_to_json)
  also have "\<dots> = Inr p"
    unfolding to_json_def using i by simp
  finally show ?thesis .
qed

theorem C1_witness:
  \<open>example_urlparse_scheme (url (service example_payload)) = Inr (endpoint_scheme example_payload)
   \<and> to_bytes example_payload
       = ''{"service": {"url": "http://example.org/inbox"}, "payload": "-_8=", "retries": 3}''
   \<and> from_bytes example_urlparse_scheme (to_bytes example_payload) = Inr example_payload\<close>
proof -
  have h: "example_urlparse_scheme (url (service example_payload))
             = Inr (endpoint_scheme example_payload)"
    by (simp add: example_urlparse_scheme_def example_payload_def endpoint_scheme_def)
  have t: \<open>to_bytes example_payload
       = ''{"service": {"url": "http://example.org/inbox"}, "payload": "-_8=", "retries": 3}''\<close>
    by code_simp
  from C1_from_bytes_to_bytes [of example_urlparse_scheme example_payload, OF h] h t show ?thesis
    by blast
qed

end
